theory Spec2Isabelle
  imports Complex_Main "HOL-Library.Sublist"
begin

section \<open>Python values and exceptions\<close>

text \<open>
  The exceptions of the interpreter and of the HTTP library that the module can meet.
  Subclassing is modelled by predicates: \<open>ConnectionError\<close> and \<open>Timeout\<close> are
  subclasses of \<open>RequestException\<close>; \<open>JSONDecodeError\<close> (of the HTTP library) is a
  subclass of both \<open>RequestException\<close> and \<open>ValueError\<close>.
\<close>

datatype py_exception =
    RequestException
  | ConnectionError
  | Timeout
  | JSONDecodeError
  | ValueError
  | ZeroDivisionError
  | OverflowError
  | KeyError
  | OtherException string

fun is_RequestException :: "py_exception \<Rightarrow> bool" where
  "is_RequestException RequestException = True"
| "is_RequestException ConnectionError = True"
| "is_RequestException Timeout = True"
| "is_RequestException JSONDecodeError = True"
| "is_RequestException _ = False"

fun is_ValueError :: "py_exception \<Rightarrow> bool" where
  "is_ValueError ValueError = True"
| "is_ValueError JSONDecodeError = True"
| "is_ValueError _ = False"

subsection \<open>Floats\<close>

text \<open>
  A Python float is an IEEE 754 binary64 number: a sign and a magnitude (a rational that
  is a multiple of the spacing of its binade), an infinity, or a NaN. \<open>Fin False 0\<close> is
  \<open>0.0\<close> and \<open>Fin True 0\<close> is \<open>-0.0\<close>.
\<close>

datatype pyfloat = Fin bool rat | Inf bool | NaN

definition pow2 :: "int \<Rightarrow> rat" where
  "pow2 e = (if 0 \<le> e then 2 ^ nat e else 1 / 2 ^ nat (- e))"

function bitlen :: "int \<Rightarrow> int" where
  "bitlen n = (if n \<le> 0 then 0 else 1 + bitlen (n div 2))"
  by pat_completeness auto
termination
  by (relation "measure nat") auto

declare bitlen.simps [simp del]

text \<open>\<open>ilog2 r\<close> is the exponent of the binade of \<open>r > 0\<close>: \<open>2 ^ e \<le> r < 2 ^ (e + 1)\<close>.\<close>

definition ilog2 :: "rat \<Rightarrow> int" where
  "ilog2 r = (case quotient_of r of (p, q) \<Rightarrow>
     (let d = bitlen p - bitlen q in if pow2 d \<le> r then d else d - 1))"

definition round_half_even :: "rat \<Rightarrow> int" where
  "round_half_even r = (let f = \<lfloor>r\<rfloor>; d = r - of_int f in
      if d < 1 / 2 then f else if 1 / 2 < d then f + 1
      else if even f then f else f + 1)"

text \<open>The spacing of the doubles in binade \<open>e\<close>; below \<open>2 ^ - 1022\<close> it is that of the subnormals.\<close>

definition quantum :: "int \<Rightarrow> rat" where
  "quantum e = pow2 (max e (- 1022) - 52)"

definition round_to_quantum :: "rat \<Rightarrow> rat \<Rightarrow> rat" where
  "round_to_quantum r q = of_int (round_half_even (r / q)) * q"

definition in_range :: "rat \<Rightarrow> rat option" where
  "in_range v = (if 1024 \<le> ilog2 v then None else Some v)"

text \<open>
  Round-to-nearest, ties-to-even, of a magnitude \<open>r \<ge> 0\<close> to binary64; \<open>None\<close> when the
  rounded value reaches \<open>2 ^ 1024\<close> (overflow).
\<close>

definition binary64 :: "rat \<Rightarrow> rat option" where
  "binary64 r = (if r = 0 then Some 0
     else if 1024 \<le> ilog2 r then None
     else in_range (round_to_quantum r (quantum (ilog2 r))))"

definition round_result :: "bool \<Rightarrow> rat option \<Rightarrow> py_exception + pyfloat" where
  "round_result s r = (case r of None \<Rightarrow> Inl OverflowError | Some v \<Rightarrow> Inr (Fin s v))"

text \<open>\<open>a / b\<close> on ints: the correctly rounded quotient, or an error.\<close>

definition int_truediv :: "int \<Rightarrow> int \<Rightarrow> py_exception + pyfloat" where
  "int_truediv a b = (if b = 0 then Inl ZeroDivisionError
     else round_result ((a < 0) \<noteq> (b < 0)) (binary64 (of_int \<bar>a\<bar> / of_int \<bar>b\<bar>)))"

text \<open>The conversion of an int operand of a float operation.\<close>

definition float_of_int :: "int \<Rightarrow> py_exception + pyfloat" where
  "float_of_int k = round_result (k < 0) (binary64 (of_int \<bar>k\<bar>))"

definition mul_result :: "bool \<Rightarrow> rat option \<Rightarrow> pyfloat" where
  "mul_result s r = (case r of None \<Rightarrow> Inf s | Some v \<Rightarrow> Fin s v)"

text \<open>\<open>x * y\<close> on floats: overflow gives an infinity, not an error.\<close>

fun float_mul :: "pyfloat \<Rightarrow> pyfloat \<Rightarrow> pyfloat" where
  "float_mul NaN _ = NaN"
| "float_mul _ NaN = NaN"
| "float_mul (Inf s) (Inf t) = Inf (s \<noteq> t)"
| "float_mul (Inf s) (Fin t n) = (if n = 0 then NaN else Inf (s \<noteq> t))"
| "float_mul (Fin s m) (Inf t) = (if m = 0 then NaN else Inf (s \<noteq> t))"
| "float_mul (Fin s m) (Fin t n) = mul_result (s \<noteq> t) (binary64 (m * n))"

text \<open>
  \<open>round(x, ndigits)\<close> for \<open>0 \<le> ndigits\<close>: the float nearest to the decimal with
  \<open>ndigits\<close> places nearest to \<open>x\<close> (ties to even); infinities and NaN round to
  themselves.
\<close>

fun float_round :: "pyfloat \<Rightarrow> nat \<Rightarrow> py_exception + pyfloat" where
  "float_round (Fin s m) ndigits =
     round_result s (binary64 (of_int (round_half_even (m * 10 ^ ndigits)) / 10 ^ ndigits))"
| "float_round x ndigits = Inr x"

text \<open>The float that a decimal literal \<open>n / 10 ^ k\<close> of the source denotes.\<close>

definition float_literal :: "int \<Rightarrow> nat \<Rightarrow> pyfloat" where
  "float_literal n k = mul_result (n < 0) (binary64 (of_int \<bar>n\<bar> / 10 ^ k))"

subsection \<open>Values\<close>

datatype pyval =
    PyNone
  | PyBool bool
  | PyInt int
  | PyFloat pyfloat
  | PyStr string
  | PyList "pyval list"
  | PyDict "(string \<times> pyval) list"

fun truthy :: "pyval \<Rightarrow> bool" where
  "truthy PyNone = False"
| "truthy (PyBool b) = b"
| "truthy (PyInt n) = (n \<noteq> 0)"
| "truthy (PyFloat x) = (case x of Fin s m \<Rightarrow> m \<noteq> 0 | _ \<Rightarrow> True)"
| "truthy (PyStr s) = (s \<noteq> [])"
| "truthy (PyList xs) = (xs \<noteq> [])"
| "truthy (PyDict kvs) = (kvs \<noteq> [])"

text \<open>\<open>a or b\<close> where \<open>a\<close> is an optional string and \<open>b\<close> a string.\<close>

definition str_or :: "string option \<Rightarrow> string \<Rightarrow> string" where
  "str_or a b = (case a of None \<Rightarrow> b | Some s \<Rightarrow> if s = [] then b else s)"

subsection \<open>Strings\<close>

text \<open>
  Strings are byte lists; the non-ASCII characters of the source's literals are their
  UTF-8 encodings.
\<close>

definition digit_char :: "int \<Rightarrow> char" where
  "digit_char d = ''0123456789'' ! nat d"

function decimal :: "int \<Rightarrow> string" where
  "decimal n = (if n < 10 then [digit_char n] else decimal (n div 10) @ [digit_char (n mod 10)])"
  by pat_completeness auto
termination
  by (relation "measure nat") auto

declare decimal.simps [simp del]

text \<open>\<open>str(n)\<close> for an int, as an f-string renders it.\<close>

definition str_int :: "int \<Rightarrow> string" where
  "str_int n = (if n < 0 then CHR ''-'' # decimal (- n) else decimal n)"

fun join :: "string \<Rightarrow> string list \<Rightarrow> string" where
  "join sep [] = []"
| "join sep [x] = x"
| "join sep (x # y # ys) = x @ sep @ join sep (y # ys)"

definition check_mark :: string where
  "check_mark = [CHR 0xE2, CHR 0x9C, CHR 0x85]"

definition cross_mark :: string where
  "cross_mark = [CHR 0xE2, CHR 0x9D, CHR 0x8C]"

definition bar_chart :: string where
  "bar_chart = [CHR 0xF0, CHR 0x9F, CHR 0x93, CHR 0x8A]"

definition bullet :: string where
  "bullet = [CHR 0xE2, CHR 0x80, CHR 0xA2]"

definition waving_hand :: string where
  "waving_hand = [CHR 0xF0, CHR 0x9F, CHR 0x91, CHR 0x8B]"

section \<open>Collaborators\<close>

text \<open>
  The logo constants come from the configuration module, which is outside this module;
  they are taken as parameters. \<open>environ\<close> is the process environment that
  \<open>os.getenv\<close> reads.
\<close>

record config =
  aws_logo :: string
  azure_logo :: string
  gcp_logo :: string
  square_logo_img :: string

type_synonym environ = "string \<rightharpoonup> string"

text \<open>
  The provider handle. The function below reads attributes of it inside a
  \<open>try\<close>; a field that is \<open>None\<close> stands for an attribute whose access (or whose
  rendering) raises.
\<close>

record provider =
  provider_type :: "string option"
  account :: "string option"
  project_ids :: "string list option"
  subscriptions :: "(string \<times> string) list option"

text \<open>The statistics mapping: every field, when present, is an int.\<close>

type_synonym stats = "string \<rightharpoonup> int"

text \<open>\<open>stats.get(key, default)\<close>\<close>

definition stats_get :: "stats \<Rightarrow> string \<Rightarrow> int \<Rightarrow> int" where
  "stats_get stats key dflt = (case stats key of None \<Rightarrow> dflt | Some v \<Rightarrow> v)"

section \<open>utils.py\<close>

definition get_provider_identity_and_logo :: "config \<Rightarrow> provider \<Rightarrow> string \<times> string" where
  "get_provider_identity_and_logo cfg p =
     (case provider_type p of
        None \<Rightarrow> ([], aws_logo cfg)
      | Some t \<Rightarrow>
          if t = ''aws'' then
            (case account p of
               None \<Rightarrow> ([], aws_logo cfg)
             | Some a \<Rightarrow> (''AWS Account *'' @ a @ ''*'', aws_logo cfg))
          else if t = ''gcp'' then
            (case project_ids p of
               None \<Rightarrow> ([], aws_logo cfg)
             | Some ids \<Rightarrow> (''GCP Projects *'' @ join '', '' ids @ ''*'', gcp_logo cfg))
          else if t = ''azure'' then
            (case subscriptions p of
               None \<Rightarrow> ([], aws_logo cfg)
             | Some subs \<Rightarrow>
                 (''Azure Subscriptions:\<newline>'' @
                    concat (map (\<lambda>(key, value). ''- *'' @ key @ '': '' @ value @ ''*\<newline>'') subs),
                  azure_logo cfg))
          else ([], aws_logo cfg))"

text \<open>
  \<open>build_summary_title\<close> indexes \<open>stats['findings_count']\<close> inside a \<open>try\<close>
  whose handler logs the error and returns the empty string.
\<close>

definition summary_prefix :: string where
  "summary_prefix = ''Hey there '' @ waving_hand @ '' \<newline> I'' @ [CHR 0x27] @
     ''m *Prowler*, _the handy multi-cloud security tool_ :cloud::key:\<newline>\<newline>'' @
     '' I have just finished the security assessment on your ''"

definition build_summary_title :: "string \<Rightarrow> stats \<Rightarrow> string" where
  "build_summary_title identity stats =
     (case (case stats ''findings_count'' of
              None \<Rightarrow> Inl KeyError
            | Some n \<Rightarrow>
                Inr (summary_prefix @ identity @ '' with a total of *'' @ str_int n @
                     ''* findings.'')) of
        Inr title \<Rightarrow> title
      | Inl err \<Rightarrow> [])"

definition get_prowler_avatar :: "config \<Rightarrow> string" where
  "get_prowler_avatar cfg = square_logo_img cfg"

section \<open>exceptions.py\<close>

record error_info =
  message :: string
  remediation :: string

text \<open>The class-level table, keyed by (code, class name). It is shared mutable state.\<close>

type_synonym error_codes = "(int \<times> string) \<rightharpoonup> error_info"

definition GOOGLE_CHAT_ERROR_CODES :: error_codes where
  "GOOGLE_CHAT_ERROR_CODES =
     [(9000, ''GoogleChatClientError'') \<mapsto>
        \<lparr>message = ''Google Chat client error occurred'',
         remediation = ''Verify the webhook URL, networking rules, and retry the request.''\<rparr>,
      (9001, ''GoogleChatInvalidWebhookError'') \<mapsto>
        \<lparr>message = ''Invalid Google Chat webhook URL'',
         remediation = ''Ensure the webhook URL matches the expected Google Chat format.''\<rparr>,
      (9002, ''GoogleChatSendMessageError'') \<mapsto>
        \<lparr>message = ''Google Chat message was not accepted'',
         remediation = ''Review the response payload for details and adjust the request body.''\<rparr>]"

text \<open>
  Modelled from the spec: the base class \<open>ProwlerException\<close> is not part of this module.
  All three error kinds derive from one base with a numeric code and remediation text; an
  exception value records the class name and the arguments that
  \<open>GoogleChatBaseException.__init__\<close> passes to the base constructor, and its message
  and remediation are those of \<open>error_info\<close> at that moment.
\<close>

record gc_exception =
  class_name :: string
  code :: int
  source :: string
  file_name :: string
  original_exception :: "py_exception option"
  error_info :: error_info

text \<open>
  \<open>dict.get\<close> returns the table's own inner dict when the key is present, so the
  assignment to \<open>error_info["message"]\<close> updates the table; when the key is absent the
  default dict is a fresh one.
\<close>

definition GoogleChatBaseException_init ::
  "string \<Rightarrow> int \<Rightarrow> string option \<Rightarrow> py_exception option \<Rightarrow> string option \<Rightarrow>
   error_codes \<Rightarrow> gc_exception \<times> error_codes" where
  "GoogleChatBaseException_init cls code' file' original message' table =
     (let key = (code', cls);
          info = (case table key of
                    Some i \<Rightarrow> i
                  | None \<Rightarrow> \<lparr>message = ''Unknown Google Chat error'', remediation = []\<rparr>);
          info' = (case message' of
                     None \<Rightarrow> info
                   | Some m \<Rightarrow> if m = [] then info else info\<lparr>message := m\<rparr>);
          table' = (case table key of Some i \<Rightarrow> table(key \<mapsto> info') | None \<Rightarrow> table)
      in (\<lparr>class_name = cls, code = code', source = ''Google Chat'',
           file_name = str_or file' ''exceptions.py'',
           original_exception = original, error_info = info'\<rparr>, table'))"

definition GoogleChatClientError ::
  "string option \<Rightarrow> py_exception option \<Rightarrow> string option \<Rightarrow> error_codes \<Rightarrow>
   gc_exception \<times> error_codes" where
  "GoogleChatClientError file' original message' table =
     GoogleChatBaseException_init ''GoogleChatClientError'' 9000 file' original message' table"

definition GoogleChatInvalidWebhookError ::
  "string option \<Rightarrow> py_exception option \<Rightarrow> string option \<Rightarrow> error_codes \<Rightarrow>
   gc_exception \<times> error_codes" where
  "GoogleChatInvalidWebhookError file' original message' table =
     GoogleChatBaseException_init ''GoogleChatInvalidWebhookError'' 9001 file' original message' table"

definition GoogleChatSendMessageError ::
  "string option \<Rightarrow> py_exception option \<Rightarrow> string option \<Rightarrow> error_codes \<Rightarrow>
   gc_exception \<times> error_codes" where
  "GoogleChatSendMessageError file' original message' table =
     GoogleChatBaseException_init ''GoogleChatSendMessageError'' 9002 file' original message' table"

section \<open>google_chat.py\<close>

definition DEFAULT_CARD_HEADER :: string where
  "DEFAULT_CARD_HEADER = ''Prowler Scan Summary''"

text \<open>\<open>os.getenv("AUTH_URL") or os.getenv("PROWLER_URL") or "https://prowler.com"\<close>\<close>

definition DEFAULT_SUBTITLE :: "environ \<Rightarrow> string" where
  "DEFAULT_SUBTITLE env =
     str_or (env ''AUTH_URL'') (str_or (env ''PROWLER_URL'') ''https://prowler.com'')"

definition REQUEST_TIMEOUT_SECONDS :: int where
  "REQUEST_TIMEOUT_SECONDS = 10"

text \<open>
  An HTTP response: its status, its body text, and what \<open>response.json()\<close> does
  (returns the parsed body, or raises).
\<close>

record response =
  status_code :: int
  response_text :: string
  response_json :: "py_exception + pyval"

text \<open>
  \<open>requests.post(url, json=payload, timeout=t)\<close> is the external transport: it
  returns a response or raises.
\<close>

type_synonym transport = "string \<Rightarrow> pyval \<Rightarrow> int \<Rightarrow> py_exception + response"

text \<open>
  Modelled from the spec: the class \<open>Connection\<close> is declared outside this module. A
  connection result is either connected, or not connected with an attached error;
  \<open>is_connected\<close> defaults to false and \<open>error\<close> to none.
\<close>

record connection =
  is_connected :: bool
  error :: "gc_exception option"

record google_chat =
  webhook_url :: string
  provider :: provider
  space_name :: "string option"
  card_header :: string

definition this_file :: "string option" where
  "this_file = Some ''google_chat.py''"

text \<open>\<open>raise\<close> of a freshly constructed exception: the constructor has run.\<close>

definition raise_exc :: "gc_exception \<times> error_codes \<Rightarrow> (gc_exception + 'a) \<times> error_codes" where
  "raise_exc constructed = (Inl (fst constructed), snd constructed)"

fun isinstance_str :: "pyval \<Rightarrow> bool" where
  "isinstance_str (PyStr s) = True"
| "isinstance_str _ = False"

text \<open>
  \<open>__validate_webhook_url\<close>. The last branch of the \<open>case\<close> is not reachable: a
  value that passes the first test is a string.
\<close>

definition validate_webhook_url ::
  "pyval \<Rightarrow> error_codes \<Rightarrow> (gc_exception + string) \<times> error_codes" where
  "validate_webhook_url url table =
     (if \<not> truthy url \<or> \<not> isinstance_str url then
        raise_exc (GoogleChatInvalidWebhookError this_file None
                     (Some ''Google Chat webhook URL is required.'') table)
      else (case url of
              PyStr s \<Rightarrow>
                if \<not> prefix ''https://chat.googleapis.com/'' s then
                  raise_exc (GoogleChatInvalidWebhookError this_file None
                     (Some ''Google Chat webhook URL must start with https://chat.googleapis.com/.'')
                     table)
                else (Inr s, table)
            | _ \<Rightarrow>
                raise_exc (GoogleChatInvalidWebhookError this_file None
                     (Some ''Google Chat webhook URL is required.'') table)))"

text \<open>\<open>GoogleChat.__init__\<close>\<close>

definition GoogleChat_init ::
  "pyval \<Rightarrow> provider \<Rightarrow> string option \<Rightarrow> string option \<Rightarrow> error_codes \<Rightarrow>
   (gc_exception + google_chat) \<times> error_codes" where
  "GoogleChat_init url prov space header table =
     (case validate_webhook_url url table of
        (Inl e, table') \<Rightarrow> (Inl e, table')
      | (Inr validated, table') \<Rightarrow>
          (Inr \<lparr>webhook_url = validated, provider = prov, space_name = space,
                card_header = str_or header DEFAULT_CARD_HEADER\<rparr>, table'))"

text \<open>
  \<open>__safe_response_content\<close>: only a \<open>ValueError\<close> of \<open>response.json()\<close> is caught.
\<close>

definition safe_response_content :: "response \<Rightarrow> py_exception + pyval" where
  "safe_response_content r =
     (if response_text r \<noteq> [] then
        (case response_json r of
           Inr body \<Rightarrow> Inr body
         | Inl e \<Rightarrow> if is_ValueError e then Inr (PyStr (response_text r)) else Inl e)
      else Inr PyNone)"

text \<open>
  \<open>__calculate_percentage\<close>: \<open>not total\<close> is tested outside the \<open>try\<close>; the handler
  of the \<open>try\<close> logs the error and falls through to \<open>return 0.0\<close>.
\<close>

definition calculate_percentage :: "int \<Rightarrow> int \<Rightarrow> py_exception + pyfloat" where
  "calculate_percentage count total' =
     (if total' = 0 then Inr (Fin False 0)
      else (case (case int_truediv count total' of
                    Inl e \<Rightarrow> Inl e
                  | Inr q \<Rightarrow>
                      (case float_of_int 100 of
                         Inl e \<Rightarrow> Inl e
                       | Inr h \<Rightarrow> float_round (float_mul q h) 2)) of
              Inr v \<Rightarrow> Inr v
            | Inl err \<Rightarrow> Inr (Fin False 0)))"

definition build_parameters_section :: "string \<Rightarrow> pyval" where
  "build_parameters_section args =
     (let parameters_text =
            (if args \<noteq> [] then ''*Used parameters*\<newline>`prowler '' @ args @ ''`''
             else ''*Used parameters*\<newline>`prowler`'')
      in PyDict [(''widgets'',
           PyList [PyDict [(''textParagraph'', PyDict [(''text'', PyStr parameters_text)])]])])"

definition severity_line :: "stats \<Rightarrow> string \<Rightarrow> string" where
  "severity_line stats outcome =
     ''*Severities:* '' @
     ''Critical '' @ str_int (stats_get stats (''total_critical_severity_'' @ outcome) 0) @
       '' '' @ bullet @ '' '' @
     ''High '' @ str_int (stats_get stats (''total_high_severity_'' @ outcome) 0) @
       '' '' @ bullet @ '' '' @
     ''Medium '' @ str_int (stats_get stats (''total_medium_severity_'' @ outcome) 0) @
       '' '' @ bullet @ '' '' @
     ''Low '' @ str_int (stats_get stats (''total_low_severity_'' @ outcome) 0)"

text \<open>
  \<open>__build_statistics_section\<close>. \<open>float_str\<close> is the interpreter's rendering of a
  float inside an f-string; it is a parameter.
\<close>

definition build_statistics_section ::
  "(pyfloat \<Rightarrow> string) \<Rightarrow> stats \<Rightarrow> py_exception + pyval" where
  "build_statistics_section float_str stats =
     (case calculate_percentage (stats_get stats ''total_pass'' 0)
             (stats_get stats ''findings_count'' 0) of
        Inl e \<Rightarrow> Inl e
      | Inr pass_percentage \<Rightarrow>
     (case calculate_percentage (stats_get stats ''total_fail'' 0)
             (stats_get stats ''findings_count'' 0) of
        Inl e \<Rightarrow> Inl e
      | Inr fail_percentage \<Rightarrow>
          Inr (PyDict [(''widgets'', PyList [
            PyDict [(''decoratedText'', PyDict [
              (''text'', PyStr (check_mark @ '' *'' @ str_int (stats_get stats ''total_pass'' 0) @
                 '' Passed findings* ('' @ float_str pass_percentage @ ''%)'')),
              (''bottomText'', PyStr (severity_line stats ''pass''))])],
            PyDict [(''decoratedText'', PyDict [
              (''text'', PyStr (cross_mark @ '' *'' @ str_int (stats_get stats ''total_fail'' 0) @
                 '' Failed findings* ('' @ float_str fail_percentage @ ''%)'')),
              (''bottomText'', PyStr (severity_line stats ''fail''))])],
            PyDict [(''decoratedText'', PyDict [
              (''text'', PyStr (bar_chart @ '' *'' @
                 str_int (stats_get stats ''resources_count'' 0) @ '' Scanned Resources*'')),
              (''bottomText'', PyStr (''Total findings analysed: '' @
                 str_int (stats_get stats ''findings_count'' 0)))])]])])))"

definition build_identity_section :: "string \<Rightarrow> string \<Rightarrow> stats \<Rightarrow> pyval" where
  "build_identity_section identity logo stats =
     (let summary_text = build_summary_title (str_or (Some identity) ''your environment'') stats
      in PyDict [(''widgets'', PyList [
           PyDict [(''decoratedText'', PyDict [
             (''text'', PyStr (''*Environment*\<newline>'' @
                str_or (Some identity) ''Unknown provider'')),
             (''startIcon'', PyDict [
                (''altText'', PyStr ''Provider Logo''),
                (''imageUrl'', PyStr logo)])])],
           PyDict [(''textParagraph'', PyDict [(''text'', PyStr summary_text)])]])])"

definition build_message ::
  "config \<Rightarrow> environ \<Rightarrow> (pyfloat \<Rightarrow> string) \<Rightarrow> google_chat \<Rightarrow>
   string \<Rightarrow> string \<Rightarrow> stats \<Rightarrow> string \<Rightarrow> py_exception + pyval" where
  "build_message cfg env float_str self identity logo stats args =
     (case build_statistics_section float_str stats of
        Inl e \<Rightarrow> Inl e
      | Inr statistics \<Rightarrow>
          Inr (PyDict [(''cardsV2'', PyList [
            PyDict [
              (''cardId'', PyStr ''prowler-summary''),
              (''card'', PyDict [
                 (''header'', PyDict [
                    (''title'', PyStr (card_header self)),
                    (''subtitle'', PyStr (str_or (space_name self) (DEFAULT_SUBTITLE env))),
                    (''imageUrl'', PyStr (get_prowler_avatar cfg)),
                    (''imageType'', PyStr ''SQUARE'')]),
                 (''sections'', PyList [
                    build_identity_section identity logo stats,
                    statistics,
                    build_parameters_section args])])]])]))"

text \<open>The f-string of the message of a rejected request.\<close>

definition returned_message :: "response \<Rightarrow> string" where
  "returned_message r =
     ''Google Chat webhook returned '' @ str_int (status_code r) @ '': '' @ response_text r"

text \<open>
  The two last handlers of \<open>send\<close>, for an exception \<open>error\<close> that leaves the
  \<open>try\<close> body and is none of the module's own.
\<close>

definition send_handlers ::
  "py_exception \<Rightarrow> error_codes \<Rightarrow> (gc_exception + pyval) \<times> error_codes" where
  "send_handlers err table =
     (if is_RequestException err then
        raise_exc (GoogleChatClientError this_file (Some err)
                     (Some ''Failed to call Google Chat webhook'') table)
      else
        raise_exc (GoogleChatClientError this_file (Some err)
                     (Some ''Unexpected error building Google Chat message'') table))"

definition send ::
  "config \<Rightarrow> environ \<Rightarrow> (pyfloat \<Rightarrow> string) \<Rightarrow> transport \<Rightarrow> google_chat \<Rightarrow>
   stats \<Rightarrow> string \<Rightarrow> error_codes \<Rightarrow> (gc_exception + pyval) \<times> error_codes" where
  "send cfg env float_str post self stats args table =
     (case get_provider_identity_and_logo cfg (provider self) of (identity, logo) \<Rightarrow>
        (case build_message cfg env float_str self identity logo stats args of
           Inl err \<Rightarrow> send_handlers err table
         | Inr payload \<Rightarrow>
             (case post (webhook_url self) payload REQUEST_TIMEOUT_SECONDS of
                Inl err \<Rightarrow> send_handlers err table
              | Inr r \<Rightarrow>
                  if 200 \<le> status_code r \<and> status_code r < 300 then
                    (case safe_response_content r of
                       Inl err \<Rightarrow> send_handlers err table
                     | Inr content \<Rightarrow> (Inr content, table))
                  else
                    raise_exc (GoogleChatSendMessageError this_file None
                                 (Some (returned_message r)) table))))"

definition test_payload :: "config \<Rightarrow> pyval" where
  "test_payload cfg =
     PyDict [(''cardsV2'', PyList [
       PyDict [
         (''cardId'', PyStr ''prowler-test''),
         (''card'', PyDict [
            (''header'', PyDict [
               (''title'', PyStr ''Prowler Google Chat Integration''),
               (''subtitle'', PyStr ''Connection test''),
               (''imageUrl'', PyStr (get_prowler_avatar cfg)),
               (''imageType'', PyStr ''SQUARE'')]),
            (''sections'', PyList [
               PyDict [(''widgets'', PyList [
                 PyDict [(''textParagraph'', PyDict [
                   (''text'', PyStr
                      ''This is a test message from Prowler to verify webhook connectivity.'')])]])]])])]])]"

text \<open>
  What every handler of \<open>test_connection\<close> does with its exception: raise it, or
  return it in a connection result.
\<close>

definition raise_or_return ::
  "bool \<Rightarrow> gc_exception \<times> error_codes \<Rightarrow> (gc_exception + connection) \<times> error_codes" where
  "raise_or_return raise_on_exception constructed =
     (if raise_on_exception then raise_exc constructed
      else (Inr \<lparr>is_connected = False, error = Some (fst constructed)\<rparr>, snd constructed))"

definition test_connection ::
  "config \<Rightarrow> transport \<Rightarrow> pyval \<Rightarrow> bool \<Rightarrow> error_codes \<Rightarrow>
   (gc_exception + connection) \<times> error_codes" where
  "test_connection cfg post url raise_on_exception table =
     (case validate_webhook_url url table of
        (Inl exception, table') \<Rightarrow> raise_or_return raise_on_exception (exception, table')
      | (Inr validated_url, table') \<Rightarrow>
          (case post validated_url (test_payload cfg) REQUEST_TIMEOUT_SECONDS of
             Inr r \<Rightarrow>
               if 200 \<le> status_code r \<and> status_code r < 300 then
                 (Inr \<lparr>is_connected = True, error = None\<rparr>, table')
               else
                 raise_or_return raise_on_exception
                   (GoogleChatSendMessageError this_file None (Some (returned_message r)) table')
           | Inl err \<Rightarrow>
               if is_RequestException err then
                 raise_or_return raise_on_exception
                   (GoogleChatClientError this_file (Some err)
                      (Some ''Failed to reach Google Chat webhook'') table')
               else
                 raise_or_return raise_on_exception
                   (GoogleChatClientError this_file (Some err)
                      (Some ''Unexpected error testing Google Chat webhook'') table')))"

section \<open>Inputs of the test-suite\<close>

definition WEBHOOK_URL :: string where
  "WEBHOOK_URL = ''https://chat.googleapis.com/v1/spaces/AAAA/messages?key=fake&token=fake''"

definition ARGS :: string where
  "ARGS = ''--google-chat''"

definition build_stats :: stats where
  "build_stats =
     [''total_pass'' \<mapsto> 12,
      ''total_fail'' \<mapsto> 10,
      ''total_critical_severity_pass'' \<mapsto> 4,
      ''total_critical_severity_fail'' \<mapsto> 4,
      ''total_high_severity_pass'' \<mapsto> 1,
      ''total_high_severity_fail'' \<mapsto> 1,
      ''total_medium_severity_pass'' \<mapsto> 1,
      ''total_medium_severity_fail'' \<mapsto> 2,
      ''total_low_severity_pass'' \<mapsto> 3,
      ''total_low_severity_fail'' \<mapsto> 2,
      ''resources_count'' \<mapsto> 20,
      ''findings_count'' \<mapsto> 22]"

text \<open>A configuration, an AWS provider and the notifier \<open>GoogleChat(WEBHOOK_URL, provider)\<close>.\<close>

definition mock_config :: config where
  "mock_config = \<lparr>aws_logo = ''aws.png'', azure_logo = ''azure.png'', gcp_logo = ''gcp.png'',
     square_logo_img = ''prowler.png''\<rparr>"

definition mock_provider :: provider where
  "mock_provider = \<lparr>provider_type = Some ''aws'', account = Some ''123456789012'',
     project_ids = None, subscriptions = None\<rparr>"

definition mock_chat :: google_chat where
  "mock_chat = \<lparr>webhook_url = WEBHOOK_URL, provider = mock_provider, space_name = None,
     card_header = DEFAULT_CARD_HEADER\<rparr>"

text \<open>A response with no JSON body, as the test-suite's \<open>MockResponse(status, text=...)\<close>.\<close>

definition text_response :: "int \<Rightarrow> string \<Rightarrow> response" where
  "text_response status body =
     \<lparr>status_code = status, response_text = body, response_json = Inl ValueError\<rparr>"

section \<open>The claims' words\<close>

text \<open>
  The URL that validation accepts, in the words of the specification: a non-empty string
  that starts with the fixed prefix.
\<close>

fun accepted_url :: "pyval \<Rightarrow> string option" where
  "accepted_url (PyStr s) =
     (if s \<noteq> [] \<and> prefix ''https://chat.googleapis.com/'' s then Some s else None)"
| "accepted_url _ = None"

text \<open>
  The percentage in the words of the specification: \<open>round(count / findings_count * 100, 2)\<close>,
  evaluated as the interpreter does (it can raise).
\<close>

definition spec_percentage :: "int \<Rightarrow> int \<Rightarrow> py_exception + pyfloat" where
  "spec_percentage count findings_count =
     (case int_truediv count findings_count of
        Inl e \<Rightarrow> Inl e
      | Inr q \<Rightarrow>
          (case float_of_int 100 of
             Inl e \<Rightarrow> Inl e
           | Inr h \<Rightarrow> float_round (float_mul q h) 2))"

text \<open>
  Subscripting, as the test-suite reads a payload:
  \<open>payload["cardsV2"][0]["card"]["header"]["title"]\<close>. \<open>None\<close> stands for a
  \<open>KeyError\<close>, \<open>IndexError\<close> or \<open>TypeError\<close>.
\<close>

fun subscript :: "pyval \<Rightarrow> string \<Rightarrow> pyval option" where
  "subscript (PyDict kvs) key = map_of kvs key"
| "subscript _ key = None"

fun first_item :: "pyval \<Rightarrow> pyval option" where
  "first_item (PyList (x # xs)) = Some x"
| "first_item _ = None"

definition card_of :: "pyval \<Rightarrow> pyval option" where
  "card_of payload =
     Option.bind (Option.bind (subscript payload ''cardsV2'') first_item)
       (\<lambda>c. subscript c ''card'')"

definition header_field :: "pyval \<Rightarrow> string \<Rightarrow> pyval option" where
  "header_field payload field =
     Option.bind (Option.bind (card_of payload) (\<lambda>c. subscript c ''header''))
       (\<lambda>h. subscript h field)"

definition sections_of :: "pyval \<Rightarrow> pyval option" where
  "sections_of payload = Option.bind (card_of payload) (\<lambda>c. subscript c ''sections'')"

text \<open>The first of a list of optional strings that is present and not empty.\<close>

fun first_non_empty :: "string option list \<Rightarrow> string \<Rightarrow> string" where
  "first_non_empty [] fallback = fallback"
| "first_non_empty (None # rest) fallback = first_non_empty rest fallback"
| "first_non_empty (Some s # rest) fallback =
     (if s = [] then first_non_empty rest fallback else s)"

text \<open>A field of the header of the payload that building a message returned.\<close>

definition built_header_field :: "py_exception + pyval \<Rightarrow> string \<Rightarrow> pyval option" where
  "built_header_field built field =
     (case built of Inl e \<Rightarrow> None | Inr payload \<Rightarrow> header_field payload field)"

section \<open>Exceptions\<close>

lemma init_fields:
  "class_name (fst (GoogleChatBaseException_init cls c f orig m table)) = cls"
  "code (fst (GoogleChatBaseException_init cls c f orig m table)) = c"
  "original_exception (fst (GoogleChatBaseException_init cls c f orig m table)) = orig"
  "source (fst (GoogleChatBaseException_init cls c f orig m table)) = ''Google Chat''"
  by (simp_all add: GoogleChatBaseException_init_def Let_def)

lemma init_message:
  "m \<noteq> [] \<Longrightarrow>
   message (error_info (fst (GoogleChatBaseException_init cls c f orig (Some m) table))) = m"
  by (simp add: GoogleChatBaseException_init_def Let_def)

section \<open>URL validation\<close>

lemma validate_accepts:
  "accepted_url url = Some s \<Longrightarrow> validate_webhook_url url table = (Inr s, table)"
  by (cases url) (auto simp: validate_webhook_url_def split: if_splits)

lemma validate_rejects:
  "accepted_url url = None \<Longrightarrow>
   \<exists>m. m \<noteq> [] \<and> validate_webhook_url url table =
     raise_exc (GoogleChatInvalidWebhookError this_file None (Some m) table)"
  by (cases url) (auto simp: validate_webhook_url_def split: if_splits)

text \<open>
  C2. URL validation returns the string unchanged (and leaves the error table alone)
  exactly when the candidate is a non-empty string that starts with
  \<open>https://chat.googleapis.com/\<close>; every other value (empty, not a string, wrong
  prefix) raises \<open>GoogleChatInvalidWebhookError\<close>; any suffix after the prefix is
  accepted.
\<close>

theorem validate_webhook_url_spec:
  "((\<exists>t. validate_webhook_url url table = (Inr s, t)) \<longleftrightarrow>
      url = PyStr s \<and> s \<noteq> [] \<and> prefix ''https://chat.googleapis.com/'' s) \<and>
   (validate_webhook_url url table = (Inr s, t) \<longrightarrow> t = table) \<and>
   ((\<nexists>u. url = PyStr u \<and> u \<noteq> [] \<and> prefix ''https://chat.googleapis.com/'' u) \<longrightarrow>
      (\<exists>e t. validate_webhook_url url table = (Inl e, t) \<and>
             class_name e = ''GoogleChatInvalidWebhookError'' \<and> code e = 9001)) \<and>
   validate_webhook_url (PyStr (''https://chat.googleapis.com/'' @ rest)) table =
     (Inr (''https://chat.googleapis.com/'' @ rest), table)"
proof -
  have rejected: "\<exists>e t. validate_webhook_url url table = (Inl e, t) \<and>
             class_name e = ''GoogleChatInvalidWebhookError'' \<and> code e = 9001"
    if "accepted_url url = None"
  proof -
    from validate_rejects [OF that, of table] obtain m where
      "validate_webhook_url url table =
         raise_exc (GoogleChatInvalidWebhookError this_file None (Some m) table)" by blast
    then show ?thesis
      by (simp add: raise_exc_def GoogleChatInvalidWebhookError_def init_fields)
  qed
  have char: "accepted_url url = Some u \<longleftrightarrow>
      url = PyStr u \<and> u \<noteq> [] \<and> prefix ''https://chat.googleapis.com/'' u" for u
    by (cases url) auto
  show ?thesis
  proof (cases "accepted_url url")
    case None
    with rejected obtain e t' where r: "validate_webhook_url url table = (Inl e, t')"
      "class_name e = ''GoogleChatInvalidWebhookError''" "code e = 9001" by blast
    have no: "\<not> (url = PyStr u \<and> u \<noteq> [] \<and> prefix ''https://chat.googleapis.com/'' u)" for u
      using None char [of u] by simp
    have last: "validate_webhook_url (PyStr (''https://chat.googleapis.com/'' @ rest)) table =
       (Inr (''https://chat.googleapis.com/'' @ rest), table)"
      by (rule validate_accepts) simp
    from r no last show ?thesis by auto
  next
    case (Some u)
    then have v: "validate_webhook_url url table = (Inr u, table)" by (rule validate_accepts)
    have last: "validate_webhook_url (PyStr (''https://chat.googleapis.com/'' @ rest)) table =
       (Inr (''https://chat.googleapis.com/'' @ rest), table)"
      by (rule validate_accepts) simp
    from Some char [of u] have u: "url = PyStr u" "u \<noteq> []"
      "prefix ''https://chat.googleapis.com/'' u" by simp_all
    from v u last show ?thesis by auto
  qed
qed

theorem validate_webhook_url_spec_witness:
  "(\<exists>t. validate_webhook_url
          (PyStr ''https://chat.googleapis.com/v1/spaces/AAAA/messages?key=fake&token=fake'')
          GOOGLE_CHAT_ERROR_CODES =
        (Inr ''https://chat.googleapis.com/v1/spaces/AAAA/messages?key=fake&token=fake'', t)) \<and>
   (\<exists>e t. validate_webhook_url (PyStr ''https://invalid'') GOOGLE_CHAT_ERROR_CODES = (Inl e, t) \<and>
          class_name e = ''GoogleChatInvalidWebhookError'' \<and> code e = 9001) \<and>
   (\<exists>e t. validate_webhook_url PyNone GOOGLE_CHAT_ERROR_CODES = (Inl e, t) \<and>
          class_name e = ''GoogleChatInvalidWebhookError'' \<and> code e = 9001)"
  using validate_webhook_url_spec
          [of "PyStr ''https://chat.googleapis.com/v1/spaces/AAAA/messages?key=fake&token=fake''"
              GOOGLE_CHAT_ERROR_CODES
              "''https://chat.googleapis.com/v1/spaces/AAAA/messages?key=fake&token=fake''"]
        validate_webhook_url_spec [of "PyStr ''https://invalid''" GOOGLE_CHAT_ERROR_CODES]
        validate_webhook_url_spec [of PyNone GOOGLE_CHAT_ERROR_CODES]
  by simp

section \<open>The parameters section\<close>

text \<open>
  C9. The parameters section is one text widget. With empty \<open>args\<close> its line is the
  program name alone, with nothing after it; otherwise it is the program name, a space
  and \<open>args\<close>.
\<close>

theorem build_parameters_section_spec:
  "(args = [] \<longrightarrow>
      build_parameters_section args =
        PyDict [(''widgets'', PyList [PyDict [(''textParagraph'',
          PyDict [(''text'', PyStr ''*Used parameters*\<newline>`prowler`'')])]])]) \<and>
   (args \<noteq> [] \<longrightarrow>
      build_parameters_section args =
        PyDict [(''widgets'', PyList [PyDict [(''textParagraph'',
          PyDict [(''text'', PyStr (''*Used parameters*\<newline>`prowler'' @ '' '' @ args @ ''`''))])]])])"
  by (simp add: build_parameters_section_def)

theorem build_parameters_section_spec_witness:
  "build_parameters_section [] =
     PyDict [(''widgets'', PyList [PyDict [(''textParagraph'',
        PyDict [(''text'', PyStr ''*Used parameters*\<newline>`prowler`'')])]])] \<and>
   build_parameters_section ''--google-chat'' =
     PyDict [(''widgets'', PyList [PyDict [(''textParagraph'',
        PyDict [(''text'', PyStr ''*Used parameters*\<newline>`prowler --google-chat`'')])]])]"
  using build_parameters_section_spec [of "[]"] build_parameters_section_spec [of "''--google-chat''"]
  by simp

section \<open>The shared error table\<close>

lemma init_table:
  "table (c, cls) = Some info \<Longrightarrow> m \<noteq> [] \<Longrightarrow>
   snd (GoogleChatBaseException_init cls c f orig (Some m) table) =
     table((c, cls) \<mapsto> info\<lparr>message := m\<rparr>)"
  by (simp add: GoogleChatBaseException_init_def Let_def)

lemma init_no_message:
  "table (c, cls) = Some info \<Longrightarrow>
   error_info (fst (GoogleChatBaseException_init cls c f orig None table)) = info"
  by (simp add: GoogleChatBaseException_init_def Let_def)

lemma init_remediation:
  "table (c, cls) = Some info \<Longrightarrow>
   remediation (error_info (fst (GoogleChatBaseException_init cls c f orig m table))) =
     remediation info"
  by (simp add: GoogleChatBaseException_init_def Let_def split: option.splits)

lemma init_empty_message:
  "snd (GoogleChatBaseException_init cls c f orig (Some []) table) = table"
  by (simp add: GoogleChatBaseException_init_def Let_def map_upd_triv split: option.splits)

lemma init_no_key:
  "table (c, cls) = None \<Longrightarrow>
   snd (GoogleChatBaseException_init cls c f orig m table) = table"
  by (simp add: GoogleChatBaseException_init_def Let_def)

lemma init_default_message:
  "table (c, cls) = None \<Longrightarrow>
   message (error_info (fst (GoogleChatBaseException_init cls c f orig None table))) =
     ''Unknown Google Chat error''"
  by (simp add: GoogleChatBaseException_init_def Let_def)

text \<open>
  C10, as amended. Constructing an error of a class that has an entry in the shared table
  (the three error classes have one) with a message that is not empty writes that message
  into the entry; an error of the same class constructed next with no message carries
  that message, not the static default. The numeric code and the remediation text are
  not affected.
\<close>

theorem error_table_mutation:
  assumes "table (c, cls) = Some info" and "m \<noteq> []"
    and "GoogleChatBaseException_init cls c f1 o1 (Some m) table = (e1, table1)"
    and "GoogleChatBaseException_init cls c f2 o2 None table1 = (e2, table2)"
  shows "table1 = table((c, cls) \<mapsto> info\<lparr>message := m\<rparr>) \<and>
         message (error_info e2) = m \<and>
         code e2 = c \<and> code e1 = c \<and>
         remediation (error_info e2) = remediation info \<and>
         remediation (error_info e1) = remediation info"
proof -
  from assms(3) have e1: "e1 = fst (GoogleChatBaseException_init cls c f1 o1 (Some m) table)"
    and t1: "table1 = snd (GoogleChatBaseException_init cls c f1 o1 (Some m) table)" by simp_all
  from assms(4) have e2: "e2 = fst (GoogleChatBaseException_init cls c f2 o2 None table1)" by simp
  have t1': "table1 = table((c, cls) \<mapsto> info\<lparr>message := m\<rparr>)"
    using t1 assms(1,2) by (simp add: init_table)
  then have look: "table1 (c, cls) = Some (info\<lparr>message := m\<rparr>)" by simp
  have "error_info e2 = info\<lparr>message := m\<rparr>"
    using e2 look by (simp add: init_no_message)
  moreover have "remediation (error_info e1) = remediation info"
    using e1 assms(1) by (simp add: init_remediation)
  ultimately show ?thesis using t1' e1 e2 by (simp add: init_fields)
qed

theorem error_table_mutation_witness:
  "(\<exists>e1 table1 e2 table2.
     GoogleChatSendMessageError None None (Some ''custom'') GOOGLE_CHAT_ERROR_CODES = (e1, table1) \<and>
     GoogleChatSendMessageError None None None table1 = (e2, table2) \<and>
     message (error_info e2) = ''custom'' \<and>
     message (error_info e2) \<noteq> ''Google Chat message was not accepted'' \<and>
     code e2 = 9002 \<and>
     remediation (error_info e2) =
       ''Review the response payload for details and adjust the request body.'') \<and>
   (\<exists>e1 table1 e2 table2.
     GoogleChatClientError None None (Some ''custom'') GOOGLE_CHAT_ERROR_CODES = (e1, table1) \<and>
     GoogleChatClientError None None None table1 = (e2, table2) \<and>
     message (error_info e2) = ''custom'' \<and> code e2 = 9000 \<and>
     remediation (error_info e2) =
       ''Verify the webhook URL, networking rules, and retry the request.'') \<and>
   (\<exists>e1 table1 e2 table2.
     GoogleChatInvalidWebhookError None None (Some ''custom'') GOOGLE_CHAT_ERROR_CODES = (e1, table1) \<and>
     GoogleChatInvalidWebhookError None None None table1 = (e2, table2) \<and>
     message (error_info e2) = ''custom'' \<and> code e2 = 9001 \<and>
     remediation (error_info e2) =
       ''Ensure the webhook URL matches the expected Google Chat format.'')"
proof -
  have c: "''custom'' \<noteq> []" by simp
  have client: "\<exists>e1 table1 e2 table2.
     GoogleChatClientError None None (Some ''custom'') GOOGLE_CHAT_ERROR_CODES = (e1, table1) \<and>
     GoogleChatClientError None None None table1 = (e2, table2) \<and>
     message (error_info e2) = ''custom'' \<and> code e2 = 9000 \<and>
     remediation (error_info e2) =
       ''Verify the webhook URL, networking rules, and retry the request.''"
  proof -
    obtain e1 table1 where 1:
      "GoogleChatBaseException_init ''GoogleChatClientError'' 9000 None None (Some ''custom'')
         GOOGLE_CHAT_ERROR_CODES = (e1, table1)" by fastforce
    obtain e2 table2 where 2:
      "GoogleChatBaseException_init ''GoogleChatClientError'' 9000 None None None table1 =
         (e2, table2)" by fastforce
    have look: "GOOGLE_CHAT_ERROR_CODES (9000, ''GoogleChatClientError'') =
      Some \<lparr>message = ''Google Chat client error occurred'',
           remediation = ''Verify the webhook URL, networking rules, and retry the request.''\<rparr>"
      by (simp add: GOOGLE_CHAT_ERROR_CODES_def)
    from error_table_mutation [of GOOGLE_CHAT_ERROR_CODES 9000 "''GoogleChatClientError''",
        OF look c 1 2] 1 2
    show ?thesis by (simp add: GoogleChatClientError_def)
  qed
  have invalid: "\<exists>e1 table1 e2 table2.
     GoogleChatInvalidWebhookError None None (Some ''custom'') GOOGLE_CHAT_ERROR_CODES = (e1, table1) \<and>
     GoogleChatInvalidWebhookError None None None table1 = (e2, table2) \<and>
     message (error_info e2) = ''custom'' \<and> code e2 = 9001 \<and>
     remediation (error_info e2) =
       ''Ensure the webhook URL matches the expected Google Chat format.''"
  proof -
    obtain e1 table1 where 1:
      "GoogleChatBaseException_init ''GoogleChatInvalidWebhookError'' 9001 None None (Some ''custom'')
         GOOGLE_CHAT_ERROR_CODES = (e1, table1)" by fastforce
    obtain e2 table2 where 2:
      "GoogleChatBaseException_init ''GoogleChatInvalidWebhookError'' 9001 None None None table1 =
         (e2, table2)" by fastforce
    have look: "GOOGLE_CHAT_ERROR_CODES (9001, ''GoogleChatInvalidWebhookError'') =
      Some \<lparr>message = ''Invalid Google Chat webhook URL'',
           remediation = ''Ensure the webhook URL matches the expected Google Chat format.''\<rparr>"
      by (simp add: GOOGLE_CHAT_ERROR_CODES_def)
    from error_table_mutation [of GOOGLE_CHAT_ERROR_CODES 9001 "''GoogleChatInvalidWebhookError''",
        OF look c 1 2] 1 2
    show ?thesis by (simp add: GoogleChatInvalidWebhookError_def)
  qed
  obtain e1 table1 where 1:
    "GoogleChatBaseException_init ''GoogleChatSendMessageError'' 9002 None None (Some ''custom'')
       GOOGLE_CHAT_ERROR_CODES = (e1, table1)" by fastforce
  obtain e2 table2 where 2:
    "GoogleChatBaseException_init ''GoogleChatSendMessageError'' 9002 None None None table1 =
       (e2, table2)" by fastforce
  have look: "GOOGLE_CHAT_ERROR_CODES (9002, ''GoogleChatSendMessageError'') =
    Some \<lparr>message = ''Google Chat message was not accepted'',
         remediation = ''Review the response payload for details and adjust the request body.''\<rparr>"
    by (simp add: GOOGLE_CHAT_ERROR_CODES_def)
  have "''custom'' \<noteq> []" by simp
  from error_table_mutation [of GOOGLE_CHAT_ERROR_CODES 9002 "''GoogleChatSendMessageError''",
      OF look this 1 2] 1 2
  have "\<exists>e1 table1 e2 table2.
     GoogleChatSendMessageError None None (Some ''custom'') GOOGLE_CHAT_ERROR_CODES = (e1, table1) \<and>
     GoogleChatSendMessageError None None None table1 = (e2, table2) \<and>
     message (error_info e2) = ''custom'' \<and>
     message (error_info e2) \<noteq> ''Google Chat message was not accepted'' \<and>
     code e2 = 9002 \<and>
     remediation (error_info e2) =
       ''Review the response payload for details and adjust the request body.''"
    by (simp add: GoogleChatSendMessageError_def)
  with client invalid show ?thesis by blast
qed

text \<open>
  C10 as stated fails for an explicit message that is the empty string, and for an error
  class that has no entry in the table. \<open>GoogleChatSendMessageError(message="")\<close>
  leaves the table as it is, and the next error of that class carries the static default.
  The base class constructed with code 9000 and the message \<open>custom\<close> is no key of the
  table: the table is left as it is, and the next such error carries the message of the
  fresh default, not \<open>custom\<close>.
\<close>

theorem error_table_mutation_counterexample:
  "snd (GoogleChatSendMessageError None None (Some []) GOOGLE_CHAT_ERROR_CODES) =
     GOOGLE_CHAT_ERROR_CODES \<and>
   message (error_info (fst (GoogleChatSendMessageError None None None
     (snd (GoogleChatSendMessageError None None (Some []) GOOGLE_CHAT_ERROR_CODES))))) =
     ''Google Chat message was not accepted'' \<and>
   snd (GoogleChatBaseException_init ''GoogleChatBaseException'' 9000 None None (Some ''custom'')
          GOOGLE_CHAT_ERROR_CODES) = GOOGLE_CHAT_ERROR_CODES \<and>
   message (error_info (fst (GoogleChatBaseException_init ''GoogleChatBaseException'' 9000
     None None None
     (snd (GoogleChatBaseException_init ''GoogleChatBaseException'' 9000 None None (Some ''custom'')
          GOOGLE_CHAT_ERROR_CODES))))) = ''Unknown Google Chat error''"
proof -
  have look: "GOOGLE_CHAT_ERROR_CODES (9002, ''GoogleChatSendMessageError'') =
    Some \<lparr>message = ''Google Chat message was not accepted'',
         remediation = ''Review the response payload for details and adjust the request body.''\<rparr>"
    by (simp add: GOOGLE_CHAT_ERROR_CODES_def)
  have none: "GOOGLE_CHAT_ERROR_CODES (9000, ''GoogleChatBaseException'') = None"
    by (simp add: GOOGLE_CHAT_ERROR_CODES_def)
  have 1: "snd (GoogleChatSendMessageError None None (Some []) GOOGLE_CHAT_ERROR_CODES) =
     GOOGLE_CHAT_ERROR_CODES"
    by (simp add: GoogleChatSendMessageError_def init_empty_message)
  have 2: "message (error_info (fst (GoogleChatSendMessageError None None None
     GOOGLE_CHAT_ERROR_CODES))) = ''Google Chat message was not accepted''"
    using look by (simp add: GoogleChatSendMessageError_def init_no_message)
  have 3: "snd (GoogleChatBaseException_init ''GoogleChatBaseException'' 9000 None None
      (Some ''custom'') GOOGLE_CHAT_ERROR_CODES) = GOOGLE_CHAT_ERROR_CODES"
    using none by (rule init_no_key)
  have 4: "message (error_info (fst (GoogleChatBaseException_init ''GoogleChatBaseException'' 9000
     None None None GOOGLE_CHAT_ERROR_CODES))) = ''Unknown Google Chat error''"
    using none by (rule init_default_message)
  show ?thesis by (simp only: 1 2 3 4)
qed

section \<open>Sending and testing the connection\<close>

lemma calculate_percentage_total: "\<exists>v. calculate_percentage c t = Inr v"
  by (simp add: calculate_percentage_def split: sum.splits)

lemma build_statistics_section_total: "\<exists>section. build_statistics_section fs stats = Inr section"
proof -
  obtain p where p: "calculate_percentage (stats_get stats ''total_pass'' 0)
      (stats_get stats ''findings_count'' 0) = Inr p"
    using calculate_percentage_total by blast
  obtain f where f: "calculate_percentage (stats_get stats ''total_fail'' 0)
      (stats_get stats ''findings_count'' 0) = Inr f"
    using calculate_percentage_total by blast
  show ?thesis by (simp add: build_statistics_section_def p f)
qed

lemma build_message_total:
  "\<exists>payload. build_message cfg env fs self identity logo stats args = Inr payload"
proof -
  obtain s where "build_statistics_section fs stats = Inr s"
    using build_statistics_section_total by blast
  then show ?thesis by (simp add: build_message_def)
qed

lemma returned_message_nonempty: "returned_message r \<noteq> []"
  by (simp add: returned_message_def)

lemma send_rejected:
  assumes "get_provider_identity_and_logo cfg (provider self) = (identity, logo)"
    and "build_message cfg env fs self identity logo stats args = Inr payload"
    and "post (webhook_url self) payload REQUEST_TIMEOUT_SECONDS = Inr r"
    and "\<not> (200 \<le> status_code r \<and> status_code r < 300)"
  shows "send cfg env fs post self stats args table =
    raise_exc (GoogleChatSendMessageError this_file None (Some (returned_message r)) table)"
  using assms by (auto simp: send_def)

lemma send_accepted:
  assumes "get_provider_identity_and_logo cfg (provider self) = (identity, logo)"
    and "build_message cfg env fs self identity logo stats args = Inr payload"
    and "post (webhook_url self) payload REQUEST_TIMEOUT_SECONDS = Inr r"
    and "200 \<le> status_code r" and "status_code r < 300"
  shows "send cfg env fs post self stats args table =
    (case safe_response_content r of
       Inl err \<Rightarrow> send_handlers err table
     | Inr content \<Rightarrow> (Inr content, table))"
  using assms by (simp add: send_def)

lemma send_post_raises:
  assumes "get_provider_identity_and_logo cfg (provider self) = (identity, logo)"
    and "build_message cfg env fs self identity logo stats args = Inr payload"
    and "post (webhook_url self) payload REQUEST_TIMEOUT_SECONDS = Inl err"
  shows "send cfg env fs post self stats args table = send_handlers err table"
  using assms by (simp add: send_def)

lemma constructed_SendMessageError:
  "\<exists>e t. GoogleChatSendMessageError f None (Some (returned_message r)) table = (e, t) \<and>
     class_name e = ''GoogleChatSendMessageError'' \<and> code e = 9002 \<and>
     message (error_info e) = returned_message r"
proof -
  obtain e t where c: "GoogleChatSendMessageError f None (Some (returned_message r)) table = (e, t)"
    by fastforce
  then have "e = fst (GoogleChatSendMessageError f None (Some (returned_message r)) table)"
    by simp
  then have "class_name e = ''GoogleChatSendMessageError'' \<and> code e = 9002 \<and>
     message (error_info e) = returned_message r"
    by (simp add: GoogleChatSendMessageError_def init_fields init_message
        returned_message_nonempty)
  with c show ?thesis by blast
qed

text \<open>
  C3. For a response whose status is below 200 or at least 300, \<open>send\<close> raises
  \<open>GoogleChatSendMessageError\<close>, and so does \<open>test_connection\<close> (which returns the
  same exception in a connection result when it is told not to raise); the message holds
  the status code and the body text.
\<close>

theorem non_success_status:
  assumes "status_code r < 200 \<or> 300 \<le> status_code r"
  shows "(get_provider_identity_and_logo cfg (provider self) = (identity, logo) \<longrightarrow>
          build_message cfg env fs self identity logo stats args = Inr payload \<longrightarrow>
          post (webhook_url self) payload REQUEST_TIMEOUT_SECONDS = Inr r \<longrightarrow>
          (\<exists>e t. send cfg env fs post self stats args table = (Inl e, t) \<and>
             class_name e = ''GoogleChatSendMessageError'' \<and>
             message (error_info e) =
               ''Google Chat webhook returned '' @ str_int (status_code r) @ '': '' @ response_text r)) \<and>
         (validate_webhook_url url table = (Inr u, table) \<longrightarrow>
          post u (test_payload cfg) REQUEST_TIMEOUT_SECONDS = Inr r \<longrightarrow>
          (\<exists>e t. test_connection cfg post url True table = (Inl e, t) \<and>
             test_connection cfg post url False table =
               (Inr \<lparr>is_connected = False, error = Some e\<rparr>, t) \<and>
             class_name e = ''GoogleChatSendMessageError'' \<and>
             message (error_info e) =
               ''Google Chat webhook returned '' @ str_int (status_code r) @ '': '' @ response_text r))"
proof (intro conjI impI)
  from assms have no: "\<not> (200 \<le> status_code r \<and> status_code r < 300)" by auto
  obtain e t where e:
    "GoogleChatSendMessageError this_file None (Some (returned_message r)) table = (e, t)"
    "class_name e = ''GoogleChatSendMessageError''"
    "message (error_info e) = returned_message r"
    using constructed_SendMessageError by blast
  from e(3) have m: "message (error_info e) =
      ''Google Chat webhook returned '' @ str_int (status_code r) @ '': '' @ response_text r"
    by (simp add: returned_message_def)
  {
    assume "get_provider_identity_and_logo cfg (provider self) = (identity, logo)"
      and "build_message cfg env fs self identity logo stats args = Inr payload"
      and "post (webhook_url self) payload REQUEST_TIMEOUT_SECONDS = Inr r"
    from send_rejected [where post = post and fs = fs and env = env and table = table, OF this no]
    have "send cfg env fs post self stats args table = (Inl e, t)"
      using e(1) by (simp add: raise_exc_def)
    with e(2) m
    show "\<exists>e t. send cfg env fs post self stats args table = (Inl e, t) \<and>
             class_name e = ''GoogleChatSendMessageError'' \<and>
             message (error_info e) =
               ''Google Chat webhook returned '' @ str_int (status_code r) @ '': '' @ response_text r"
      by blast
  }
  {
    assume v: "validate_webhook_url url table = (Inr u, table)"
      and p: "post u (test_payload cfg) REQUEST_TIMEOUT_SECONDS = Inr r"
    note e' = e(1)
    have "test_connection cfg post url True table = (Inl e, t)"
      using v p no e' by (simp add: test_connection_def raise_or_return_def raise_exc_def)
    moreover have "test_connection cfg post url False table =
               (Inr \<lparr>is_connected = False, error = Some e\<rparr>, t)"
      using v p no e' by (simp add: test_connection_def raise_or_return_def)
    ultimately
    show "\<exists>e t. test_connection cfg post url True table = (Inl e, t) \<and>
             test_connection cfg post url False table =
               (Inr \<lparr>is_connected = False, error = Some e\<rparr>, t) \<and>
             class_name e = ''GoogleChatSendMessageError'' \<and>
             message (error_info e) =
               ''Google Chat webhook returned '' @ str_int (status_code r) @ '': '' @ response_text r"
      using e(2) m by blast
  }
qed


lemma str_int_400: "str_int 400 = ''400''"
  by (simp add: str_int_def decimal.simps digit_char_def)

lemma str_int_500: "str_int 500 = ''500''"
  by (simp add: str_int_def decimal.simps digit_char_def)

lemma WEBHOOK_URL_valid:
  "validate_webhook_url (PyStr WEBHOOK_URL) table = (Inr WEBHOOK_URL, table)"
  by (rule validate_accepts) (simp add: WEBHOOK_URL_def)

theorem non_success_status_witness:
  "(\<exists>e t. send mock_config Map.empty (\<lambda>x. []) (\<lambda>u p t. Inr (text_response 400 ''Bad Request''))
            mock_chat build_stats ARGS GOOGLE_CHAT_ERROR_CODES = (Inl e, t) \<and>
          class_name e = ''GoogleChatSendMessageError'' \<and>
          message (error_info e) = ''Google Chat webhook returned 400: Bad Request'') \<and>
   (\<exists>e t. test_connection mock_config (\<lambda>u p t. Inr (text_response 500 ''oops''))
            (PyStr WEBHOOK_URL) True GOOGLE_CHAT_ERROR_CODES = (Inl e, t) \<and>
          test_connection mock_config (\<lambda>u p t. Inr (text_response 500 ''oops''))
            (PyStr WEBHOOK_URL) False GOOGLE_CHAT_ERROR_CODES =
            (Inr \<lparr>is_connected = False, error = Some e\<rparr>, t) \<and>
          class_name e = ''GoogleChatSendMessageError'' \<and>
          message (error_info e) = ''Google Chat webhook returned 500: oops'')"
proof -
  obtain identity logo where gp:
    "get_provider_identity_and_logo mock_config (provider mock_chat) = (identity, logo)"
    by fastforce
  obtain payload where bm:
    "build_message mock_config Map.empty (\<lambda>x. []) mock_chat identity logo build_stats ARGS =
       Inr payload"
    using build_message_total by blast
  have 1: "status_code (text_response 400 ''Bad Request'') < 200 \<or>
           300 \<le> status_code (text_response 400 ''Bad Request'')"
    by (simp add: text_response_def)
  have 2: "status_code (text_response 500 ''oops'') < 200 \<or>
           300 \<le> status_code (text_response 500 ''oops'')"
    by (simp add: text_response_def)
  from non_success_status [OF 1, where cfg = mock_config and self = mock_chat
      and identity = identity and logo = logo and env = Map.empty and fs = "\<lambda>x. []"
      and stats = build_stats and args = ARGS and payload = payload
      and post = "\<lambda>u p t. Inr (text_response 400 ''Bad Request'')"
      and table = GOOGLE_CHAT_ERROR_CODES] gp bm
  have a: "\<exists>e t. send mock_config Map.empty (\<lambda>x. []) (\<lambda>u p t. Inr (text_response 400 ''Bad Request''))
            mock_chat build_stats ARGS GOOGLE_CHAT_ERROR_CODES = (Inl e, t) \<and>
          class_name e = ''GoogleChatSendMessageError'' \<and>
          message (error_info e) = ''Google Chat webhook returned 400: Bad Request''"
    by (simp add: text_response_def str_int_400)
  from non_success_status [OF 2, where cfg = mock_config
      and post = "\<lambda>u p t. Inr (text_response 500 ''oops'')"
      and url = "PyStr WEBHOOK_URL" and u = WEBHOOK_URL
      and table = GOOGLE_CHAT_ERROR_CODES] WEBHOOK_URL_valid
  have b: "\<exists>e t. test_connection mock_config (\<lambda>u p t. Inr (text_response 500 ''oops''))
            (PyStr WEBHOOK_URL) True GOOGLE_CHAT_ERROR_CODES = (Inl e, t) \<and>
          test_connection mock_config (\<lambda>u p t. Inr (text_response 500 ''oops''))
            (PyStr WEBHOOK_URL) False GOOGLE_CHAT_ERROR_CODES =
            (Inr \<lparr>is_connected = False, error = Some e\<rparr>, t) \<and>
          class_name e = ''GoogleChatSendMessageError'' \<and>
          message (error_info e) = ''Google Chat webhook returned 500: oops''"
    by (simp add: text_response_def str_int_500)
  from a b show ?thesis by blast
qed


text \<open>
  C4. For a response with a status in [200, 300), \<open>send\<close> returns the parsed body when
  the body text is not empty and \<open>response.json()\<close> returns, the body text when it is
  not empty and \<open>response.json()\<close> raises a \<open>ValueError\<close>, and \<open>None\<close> when the body
  text is empty; none of the three raises, and the error table is left alone.
\<close>

theorem send_success:
  assumes "200 \<le> status_code r" and "status_code r < 300"
    and "get_provider_identity_and_logo cfg (provider self) = (identity, logo)"
    and "build_message cfg env fs self identity logo stats args = Inr payload"
    and "post (webhook_url self) payload REQUEST_TIMEOUT_SECONDS = Inr r"
  shows "(response_text r \<noteq> [] \<longrightarrow> response_json r = Inr body \<longrightarrow>
            send cfg env fs post self stats args table = (Inr body, table)) \<and>
         (response_text r \<noteq> [] \<longrightarrow> response_json r = Inl err \<longrightarrow> is_ValueError err \<longrightarrow>
            send cfg env fs post self stats args table = (Inr (PyStr (response_text r)), table)) \<and>
         (response_text r = [] \<longrightarrow>
            send cfg env fs post self stats args table = (Inr PyNone, table))"
  using send_accepted [where post = post and fs = fs and env = env and table = table,
      OF assms(3,4,5,1,2)]
  by (simp add: safe_response_content_def)

theorem send_success_witness:
  "send mock_config Map.empty (\<lambda>x. [])
      (\<lambda>u p t. Inr \<lparr>status_code = 200, response_text = ''{\"ok\": true}'',
                      response_json = Inr (PyDict [(''ok'', PyBool True)])\<rparr>)
      mock_chat build_stats ARGS GOOGLE_CHAT_ERROR_CODES =
     (Inr (PyDict [(''ok'', PyBool True)]), GOOGLE_CHAT_ERROR_CODES) \<and>
   send mock_config Map.empty (\<lambda>x. []) (\<lambda>u p t. Inr (text_response 200 ''ok''))
      mock_chat build_stats ARGS GOOGLE_CHAT_ERROR_CODES =
     (Inr (PyStr ''ok''), GOOGLE_CHAT_ERROR_CODES) \<and>
   send mock_config Map.empty (\<lambda>x. []) (\<lambda>u p t. Inr (text_response 204 []))
      mock_chat build_stats ARGS GOOGLE_CHAT_ERROR_CODES =
     (Inr PyNone, GOOGLE_CHAT_ERROR_CODES)"
proof -
  obtain identity logo where gp:
    "get_provider_identity_and_logo mock_config (provider mock_chat) = (identity, logo)"
    by fastforce
  obtain payload where bm:
    "build_message mock_config Map.empty (\<lambda>x. []) mock_chat identity logo build_stats ARGS =
       Inr payload"
    using build_message_total by blast
  let ?j = "\<lparr>status_code = 200, response_text = ''{\"ok\": true}'',
             response_json = Inr (PyDict [(''ok'', PyBool True)])\<rparr>"
  have "send mock_config Map.empty (\<lambda>x. []) (\<lambda>u p t. Inr ?j)
      mock_chat build_stats ARGS GOOGLE_CHAT_ERROR_CODES =
     (Inr (PyDict [(''ok'', PyBool True)]), GOOGLE_CHAT_ERROR_CODES)"
    using send_success [where r = ?j and post = "\<lambda>u p t. Inr ?j" and cfg = mock_config
        and self = mock_chat and env = Map.empty and fs = "\<lambda>x. []" and stats = build_stats
        and args = ARGS and table = GOOGLE_CHAT_ERROR_CODES
        and body = "PyDict [(''ok'', PyBool True)]", OF _ _ gp bm]
    by simp
  moreover have "send mock_config Map.empty (\<lambda>x. []) (\<lambda>u p t. Inr (text_response 200 ''ok''))
      mock_chat build_stats ARGS GOOGLE_CHAT_ERROR_CODES =
     (Inr (PyStr ''ok''), GOOGLE_CHAT_ERROR_CODES)"
    using send_success [where r = "text_response 200 ''ok''"
        and post = "\<lambda>u p t. Inr (text_response 200 ''ok'')" and cfg = mock_config
        and self = mock_chat and env = Map.empty and fs = "\<lambda>x. []" and stats = build_stats
        and args = ARGS and table = GOOGLE_CHAT_ERROR_CODES and err = ValueError, OF _ _ gp bm]
    by (simp add: text_response_def)
  moreover have "send mock_config Map.empty (\<lambda>x. []) (\<lambda>u p t. Inr (text_response 204 []))
      mock_chat build_stats ARGS GOOGLE_CHAT_ERROR_CODES =
     (Inr PyNone, GOOGLE_CHAT_ERROR_CODES)"
    using send_success [where r = "text_response 204 []"
        and post = "\<lambda>u p t. Inr (text_response 204 [])" and cfg = mock_config
        and self = mock_chat and env = Map.empty and fs = "\<lambda>x. []" and stats = build_stats
        and args = ARGS and table = GOOGLE_CHAT_ERROR_CODES, OF _ _ gp bm]
    by (simp add: text_response_def)
  ultimately show ?thesis by blast
qed

lemma constructed_ClientError:
  "m \<noteq> [] \<Longrightarrow>
   \<exists>e t. GoogleChatClientError f orig (Some m) table = (e, t) \<and>
     class_name e = ''GoogleChatClientError'' \<and> code e = 9000 \<and>
     original_exception e = orig \<and> message (error_info e) = m"
proof -
  assume m: "m \<noteq> []"
  obtain e t where c: "GoogleChatClientError f orig (Some m) table = (e, t)"
    by fastforce
  then have "e = fst (GoogleChatClientError f orig (Some m) table)" by simp
  with m have "class_name e = ''GoogleChatClientError'' \<and> code e = 9000 \<and>
     original_exception e = orig \<and> message (error_info e) = m"
    by (simp add: GoogleChatClientError_def init_fields init_message)
  with c show ?thesis by blast
qed

text \<open>
  C6. When the POST (made with the timeout of 10 seconds) raises a transport exception,
  \<open>send\<close> raises \<open>GoogleChatClientError\<close> that wraps it; a timeout and a connection
  error are such exceptions. A rejected request still raises
  \<open>GoogleChatSendMessageError\<close>: it is not turned into a client error.
\<close>

theorem send_transport_failure:
  assumes "get_provider_identity_and_logo cfg (provider self) = (identity, logo)"
    and "build_message cfg env fs self identity logo stats args = Inr payload"
  shows "(post (webhook_url self) payload 10 = Inl err \<longrightarrow> is_RequestException err \<longrightarrow>
            (\<exists>e t. send cfg env fs post self stats args table = (Inl e, t) \<and>
               class_name e = ''GoogleChatClientError'' \<and> code e = 9000 \<and>
               original_exception e = Some err \<and>
               message (error_info e) = ''Failed to call Google Chat webhook'')) \<and>
         is_RequestException Timeout \<and> is_RequestException ConnectionError \<and>
         (post (webhook_url self) payload 10 = Inr r \<longrightarrow>
          \<not> (200 \<le> status_code r \<and> status_code r < 300) \<longrightarrow>
            (\<exists>e t. send cfg env fs post self stats args table = (Inl e, t) \<and>
               class_name e = ''GoogleChatSendMessageError'' \<and> code e = 9002))"
proof (intro conjI impI)
  show "is_RequestException Timeout" by simp
  show "is_RequestException ConnectionError" by simp
next
  assume p: "post (webhook_url self) payload 10 = Inl err" and q: "is_RequestException err"
  obtain e t where e:
    "GoogleChatClientError this_file (Some err) (Some ''Failed to call Google Chat webhook'') table
       = (e, t)"
    "class_name e = ''GoogleChatClientError''" "code e = 9000"
    "original_exception e = Some err"
    "message (error_info e) = ''Failed to call Google Chat webhook''"
    using constructed_ClientError [of "''Failed to call Google Chat webhook''" this_file "Some err" table]
    by auto
  from p have "post (webhook_url self) payload REQUEST_TIMEOUT_SECONDS = Inl err"
    by (simp add: REQUEST_TIMEOUT_SECONDS_def)
  from send_post_raises [where post = post and fs = fs and env = env and table = table,
      OF assms this] q e(1)
  have "send cfg env fs post self stats args table = (Inl e, t)"
    by (simp add: send_handlers_def raise_exc_def)
  with e show "\<exists>e t. send cfg env fs post self stats args table = (Inl e, t) \<and>
               class_name e = ''GoogleChatClientError'' \<and> code e = 9000 \<and>
               original_exception e = Some err \<and>
               message (error_info e) = ''Failed to call Google Chat webhook''"
    by blast
next
  assume p: "post (webhook_url self) payload 10 = Inr r"
    and no: "\<not> (200 \<le> status_code r \<and> status_code r < 300)"
  obtain e t where e:
    "GoogleChatSendMessageError this_file None (Some (returned_message r)) table = (e, t)"
    "class_name e = ''GoogleChatSendMessageError''" "code e = 9002"
    using constructed_SendMessageError by blast
  from p have "post (webhook_url self) payload REQUEST_TIMEOUT_SECONDS = Inr r"
    by (simp add: REQUEST_TIMEOUT_SECONDS_def)
  from send_rejected [where post = post and fs = fs and env = env and table = table,
      OF assms this no] e(1)
  have "send cfg env fs post self stats args table = (Inl e, t)"
    by (simp add: raise_exc_def)
  with e show "\<exists>e t. send cfg env fs post self stats args table = (Inl e, t) \<and>
               class_name e = ''GoogleChatSendMessageError'' \<and> code e = 9002"
    by blast
qed

theorem send_transport_failure_witness:
  "(\<exists>e t. send mock_config Map.empty (\<lambda>x. []) (\<lambda>u p t. Inl Timeout)
            mock_chat build_stats ARGS GOOGLE_CHAT_ERROR_CODES = (Inl e, t) \<and>
          class_name e = ''GoogleChatClientError'' \<and> code e = 9000 \<and>
          original_exception e = Some Timeout \<and>
          message (error_info e) = ''Failed to call Google Chat webhook'') \<and>
   (\<exists>e t. send mock_config Map.empty (\<lambda>x. []) (\<lambda>u p t. Inr (text_response 400 ''Bad Request''))
            mock_chat build_stats ARGS GOOGLE_CHAT_ERROR_CODES = (Inl e, t) \<and>
          class_name e = ''GoogleChatSendMessageError'' \<and> code e = 9002)"
proof -
  obtain identity logo where gp:
    "get_provider_identity_and_logo mock_config (provider mock_chat) = (identity, logo)"
    by fastforce
  obtain payload where bm:
    "build_message mock_config Map.empty (\<lambda>x. []) mock_chat identity logo build_stats ARGS =
       Inr payload"
    using build_message_total by blast
  from send_transport_failure [OF gp bm, where post = "\<lambda>u p t. Inl Timeout" and err = Timeout
      and table = GOOGLE_CHAT_ERROR_CODES]
  have a: "\<exists>e t. send mock_config Map.empty (\<lambda>x. []) (\<lambda>u p t. Inl Timeout)
            mock_chat build_stats ARGS GOOGLE_CHAT_ERROR_CODES = (Inl e, t) \<and>
          class_name e = ''GoogleChatClientError'' \<and> code e = 9000 \<and>
          original_exception e = Some Timeout \<and>
          message (error_info e) = ''Failed to call Google Chat webhook''"
    by simp
  from send_transport_failure [OF gp bm,
      where post = "\<lambda>u p t. Inr (text_response 400 ''Bad Request'')"
      and r = "text_response 400 ''Bad Request''" and table = GOOGLE_CHAT_ERROR_CODES]
  have b: "\<exists>e t. send mock_config Map.empty (\<lambda>x. []) (\<lambda>u p t. Inr (text_response 400 ''Bad Request''))
            mock_chat build_stats ARGS GOOGLE_CHAT_ERROR_CODES = (Inl e, t) \<and>
          class_name e = ''GoogleChatSendMessageError'' \<and> code e = 9002"
    by (simp add: text_response_def)
  from a b show ?thesis by blast
qed


lemma validate_cases:
  "(\<exists>u. validate_webhook_url url table = (Inr u, table)) \<or>
   (\<exists>e t. validate_webhook_url url table = (Inl e, t) \<and>
      class_name e = ''GoogleChatInvalidWebhookError'')"
proof (cases "accepted_url url")
  case None
  from validate_rejects [OF this, of table] obtain m where
    "validate_webhook_url url table =
       raise_exc (GoogleChatInvalidWebhookError this_file None (Some m) table)" by blast
  then show ?thesis
    by (simp add: raise_exc_def GoogleChatInvalidWebhookError_def init_fields)
next
  case (Some u)
  then show ?thesis by (simp add: validate_accepts)
qed

lemma raise_or_return_modes:
  "raise_or_return True (e, t) = (Inl e, t)"
  "raise_or_return False (e, t) = (Inr \<lparr>is_connected = False, error = Some e\<rparr>, t)"
  by (simp_all add: raise_or_return_def raise_exc_def)

text \<open>Every path of \<open>test_connection\<close>: a success, or a constructed exception handed to
  \<open>raise_or_return\<close>.\<close>

lemma test_connection_paths:
  "(\<forall>b. test_connection cfg post url b table =
          (Inr \<lparr>is_connected = True, error = None\<rparr>, table)) \<or>
   (\<exists>e t. \<forall>b. test_connection cfg post url b table = raise_or_return b (e, t))"
proof -
  consider (invalid) e t where "validate_webhook_url url table = (Inl e, t)"
    | (valid) u where "validate_webhook_url url table = (Inr u, table)"
    using validate_cases [of url table] by blast
  then show ?thesis
  proof cases
    case invalid
    then have "\<forall>b. test_connection cfg post url b table = raise_or_return b (e, t)"
      by (simp add: test_connection_def)
    then show ?thesis by blast
  next
    case valid
    show ?thesis
    proof (cases "post u (test_payload cfg) REQUEST_TIMEOUT_SECONDS")
      case (Inl err)
      obtain e1 t1 where 1: "GoogleChatClientError this_file (Some err)
          (Some ''Failed to reach Google Chat webhook'') table = (e1, t1)" by fastforce
      obtain e2 t2 where 2: "GoogleChatClientError this_file (Some err)
          (Some ''Unexpected error testing Google Chat webhook'') table = (e2, t2)" by fastforce
      show ?thesis
      proof (cases "is_RequestException err")
        case True
        with valid Inl 1 have "\<forall>b. test_connection cfg post url b table = raise_or_return b (e1, t1)"
          by (simp add: test_connection_def)
        then show ?thesis by blast
      next
        case False
        with valid Inl 2 have "\<forall>b. test_connection cfg post url b table = raise_or_return b (e2, t2)"
          by (simp add: test_connection_def)
        then show ?thesis by blast
      qed
    next
      case (Inr r)
      obtain e t where 3: "GoogleChatSendMessageError this_file None (Some (returned_message r)) table
          = (e, t)" by fastforce
      show ?thesis
      proof (cases "200 \<le> status_code r \<and> status_code r < 300")
        case True
        with valid Inr show ?thesis by (simp add: test_connection_def)
      next
        case False
        with valid Inr 3 have "\<forall>b. test_connection cfg post url b table = raise_or_return b (e, t)"
          by (auto simp: test_connection_def)
        then show ?thesis by blast
      qed
    qed
  qed
qed


lemma test_connection_invalid:
  assumes "accepted_url url = None"
  shows "\<exists>e t. (\<forall>b. test_connection cfg post url b table = raise_or_return b (e, t)) \<and>
     class_name e = ''GoogleChatInvalidWebhookError''"
proof -
  from validate_rejects [OF assms, of table] obtain m where
    "validate_webhook_url url table =
       raise_exc (GoogleChatInvalidWebhookError this_file None (Some m) table)" by blast
  then obtain e t where v: "validate_webhook_url url table = (Inl e, t)"
    and c: "class_name e = ''GoogleChatInvalidWebhookError''"
    by (simp add: raise_exc_def GoogleChatInvalidWebhookError_def init_fields)
  from v have "\<forall>b. test_connection cfg post url b table = raise_or_return b (e, t)"
    by (simp add: test_connection_def)
  with c show ?thesis by blast
qed

lemma test_connection_post_raises:
  assumes "validate_webhook_url url table = (Inr u, table)"
    and "post u (test_payload cfg) 10 = Inl err"
  shows "\<exists>e t. (\<forall>b. test_connection cfg post url b table = raise_or_return b (e, t)) \<and>
     class_name e = ''GoogleChatClientError'' \<and> original_exception e = Some err \<and>
     message (error_info e) =
       (if is_RequestException err then ''Failed to reach Google Chat webhook''
        else ''Unexpected error testing Google Chat webhook'')"
proof -
  let ?m = "if is_RequestException err then ''Failed to reach Google Chat webhook''
        else ''Unexpected error testing Google Chat webhook''"
  have "?m \<noteq> []" by simp
  from constructed_ClientError [OF this, of this_file "Some err" table]
  obtain e t where e: "GoogleChatClientError this_file (Some err) (Some ?m) table = (e, t)"
    "class_name e = ''GoogleChatClientError''" "original_exception e = Some err"
    "message (error_info e) = ?m" by blast
  from assms e(1) have "\<forall>b. test_connection cfg post url b table = raise_or_return b (e, t)"
    by (simp add: test_connection_def REQUEST_TIMEOUT_SECONDS_def split: if_splits)
  with e show ?thesis by blast
qed

lemma test_connection_rejected:
  assumes "validate_webhook_url url table = (Inr u, table)"
    and "post u (test_payload cfg) 10 = Inr r"
    and "\<not> (200 \<le> status_code r \<and> status_code r < 300)"
  shows "\<exists>e t. (\<forall>b. test_connection cfg post url b table = raise_or_return b (e, t)) \<and>
     class_name e = ''GoogleChatSendMessageError'' \<and>
     message (error_info e) = returned_message r"
proof -
  from constructed_SendMessageError [of this_file r table]
  obtain e t where e:
    "GoogleChatSendMessageError this_file None (Some (returned_message r)) table = (e, t)"
    "class_name e = ''GoogleChatSendMessageError''"
    "message (error_info e) = returned_message r" by blast
  from assms e(1) have "\<forall>b. test_connection cfg post url b table = raise_or_return b (e, t)"
    by (auto simp: test_connection_def REQUEST_TIMEOUT_SECONDS_def)
  with e show ?thesis by blast
qed

text \<open>
  C5. \<open>test_connection\<close> with \<open>raise_on_exception = False\<close> never raises: whatever
  the other mode raises, this mode returns in a connection result that is not connected,
  with the same error table. A 2xx response gives the connected result in both modes,
  whatever its body. Each failure mode gives its typed error, raised in the one mode and
  returned in the other: an invalid URL \<open>GoogleChatInvalidWebhookError\<close>, a response
  with any other status \<open>GoogleChatSendMessageError\<close> with the status and the body text
  in its message, an exception of the POST (of the transport or any other)
  \<open>GoogleChatClientError\<close> wrapping it.
\<close>

theorem test_connection_dual_mode:
  "(\<exists>c t. test_connection cfg post url False table = (Inr c, t)) \<and>
   (\<forall>e t. test_connection cfg post url True table = (Inl e, t) \<longrightarrow>
      test_connection cfg post url False table =
        (Inr \<lparr>is_connected = False, error = Some e\<rparr>, t)) \<and>
   (\<forall>c t. test_connection cfg post url True table = (Inr c, t) \<longrightarrow>
      c = \<lparr>is_connected = True, error = None\<rparr> \<and>
      test_connection cfg post url False table = (Inr c, t)) \<and>
   (\<forall>u r. validate_webhook_url url table = (Inr u, table) \<longrightarrow>
      post u (test_payload cfg) 10 = Inr r \<longrightarrow>
      200 \<le> status_code r \<longrightarrow> status_code r < 300 \<longrightarrow>
      test_connection cfg post url raise_on_exception table =
        (Inr \<lparr>is_connected = True, error = None\<rparr>, table)) \<and>
   (accepted_url url = None \<longrightarrow>
      (\<exists>e t. test_connection cfg post url False table =
                (Inr \<lparr>is_connected = False, error = Some e\<rparr>, t) \<and>
             test_connection cfg post url True table = (Inl e, t) \<and>
             class_name e = ''GoogleChatInvalidWebhookError'')) \<and>
   (\<forall>u err. validate_webhook_url url table = (Inr u, table) \<longrightarrow>
      post u (test_payload cfg) 10 = Inl err \<longrightarrow>
      (\<exists>e t. test_connection cfg post url False table =
                (Inr \<lparr>is_connected = False, error = Some e\<rparr>, t) \<and>
             test_connection cfg post url True table = (Inl e, t) \<and>
             class_name e = ''GoogleChatClientError'' \<and> original_exception e = Some err)) \<and>
   (\<forall>u r. validate_webhook_url url table = (Inr u, table) \<longrightarrow>
      post u (test_payload cfg) 10 = Inr r \<longrightarrow>
      \<not> (200 \<le> status_code r \<and> status_code r < 300) \<longrightarrow>
      (\<exists>e t. test_connection cfg post url False table =
                (Inr \<lparr>is_connected = False, error = Some e\<rparr>, t) \<and>
             test_connection cfg post url True table = (Inl e, t) \<and>
             class_name e = ''GoogleChatSendMessageError'' \<and>
             message (error_info e) =
               ''Google Chat webhook returned '' @ str_int (status_code r) @ '': '' @
                 response_text r))"
proof -
  have rejected: "\<exists>e t. test_connection cfg post url False table =
                (Inr \<lparr>is_connected = False, error = Some e\<rparr>, t) \<and>
             test_connection cfg post url True table = (Inl e, t) \<and>
             class_name e = ''GoogleChatSendMessageError'' \<and>
             message (error_info e) =
               ''Google Chat webhook returned '' @ str_int (status_code r) @ '': '' @
                 response_text r"
    if "validate_webhook_url url table = (Inr u, table)"
      and "post u (test_payload cfg) 10 = Inr r"
      and "\<not> (200 \<le> status_code r \<and> status_code r < 300)" for u r
  proof -
    from test_connection_rejected [where post = post and cfg = cfg, OF that]
    obtain e t where e: "\<forall>b. test_connection cfg post url b table = raise_or_return b (e, t)"
      "class_name e = ''GoogleChatSendMessageError''"
      "message (error_info e) = returned_message r" by blast
    from e(3) have m: "message (error_info e) =
        ''Google Chat webhook returned '' @ str_int (status_code r) @ '': '' @ response_text r"
      by (simp add: returned_message_def)
    from e(1) have "test_connection cfg post url False table =
                (Inr \<lparr>is_connected = False, error = Some e\<rparr>, t)"
      and "test_connection cfg post url True table = (Inl e, t)"
      by (simp_all add: raise_or_return_modes)
    with e(2) m show ?thesis by blast
  qed
  have success: "test_connection cfg post url raise_on_exception table =
        (Inr \<lparr>is_connected = True, error = None\<rparr>, table)"
    if "validate_webhook_url url table = (Inr u, table)"
      and "post u (test_payload cfg) 10 = Inr r"
      and "200 \<le> status_code r" and "status_code r < 300" for u r
    using that by (simp add: test_connection_def REQUEST_TIMEOUT_SECONDS_def)
  have invalid: "\<exists>e t. test_connection cfg post url False table =
                (Inr \<lparr>is_connected = False, error = Some e\<rparr>, t) \<and>
             test_connection cfg post url True table = (Inl e, t) \<and>
             class_name e = ''GoogleChatInvalidWebhookError''"
    if "accepted_url url = None"
    using test_connection_invalid [OF that, of cfg post table]
    by (auto simp: raise_or_return_modes)
  have raises: "\<exists>e t. test_connection cfg post url False table =
                (Inr \<lparr>is_connected = False, error = Some e\<rparr>, t) \<and>
             test_connection cfg post url True table = (Inl e, t) \<and>
             class_name e = ''GoogleChatClientError'' \<and> original_exception e = Some err"
    if "validate_webhook_url url table = (Inr u, table)"
      and "post u (test_payload cfg) 10 = Inl err" for u err
    using test_connection_post_raises [where post = post and cfg = cfg, OF that]
    by (auto simp: raise_or_return_modes)
  have modes: "(\<exists>c t. test_connection cfg post url False table = (Inr c, t)) \<and>
   (\<forall>e t. test_connection cfg post url True table = (Inl e, t) \<longrightarrow>
      test_connection cfg post url False table =
        (Inr \<lparr>is_connected = False, error = Some e\<rparr>, t)) \<and>
   (\<forall>c t. test_connection cfg post url True table = (Inr c, t) \<longrightarrow>
      c = \<lparr>is_connected = True, error = None\<rparr> \<and>
      test_connection cfg post url False table = (Inr c, t))"
  proof -
    from test_connection_paths [of cfg post url table]
    consider (ok) "\<forall>b. test_connection cfg post url b table =
            (Inr \<lparr>is_connected = True, error = None\<rparr>, table)"
      | (failed) e t where "\<forall>b. test_connection cfg post url b table = raise_or_return b (e, t)"
      by blast
    then show ?thesis
    proof cases
      case ok
      then show ?thesis by simp
    next
      case failed
      then have "test_connection cfg post url True table = (Inl e, t)"
        and "test_connection cfg post url False table =
          (Inr \<lparr>is_connected = False, error = Some e\<rparr>, t)"
        by (simp_all add: raise_or_return_modes)
      then show ?thesis by simp
    qed
  qed
  from modes success invalid raises rejected show ?thesis by blast
qed

theorem test_connection_dual_mode_witness:
  "(\<exists>e t. test_connection mock_config (\<lambda>u p t. Inl RequestException) (PyStr ''https://invalid'')
             False GOOGLE_CHAT_ERROR_CODES =
            (Inr \<lparr>is_connected = False, error = Some e\<rparr>, t) \<and>
          test_connection mock_config (\<lambda>u p t. Inl RequestException) (PyStr ''https://invalid'')
             True GOOGLE_CHAT_ERROR_CODES = (Inl e, t) \<and>
          class_name e = ''GoogleChatInvalidWebhookError'') \<and>
   (\<exists>e t. test_connection mock_config (\<lambda>u p t. Inl RequestException) (PyStr WEBHOOK_URL)
             False GOOGLE_CHAT_ERROR_CODES =
            (Inr \<lparr>is_connected = False, error = Some e\<rparr>, t) \<and>
          test_connection mock_config (\<lambda>u p t. Inl RequestException) (PyStr WEBHOOK_URL)
             True GOOGLE_CHAT_ERROR_CODES = (Inl e, t) \<and>
          class_name e = ''GoogleChatClientError'' \<and>
          original_exception e = Some RequestException) \<and>
   test_connection mock_config (\<lambda>u p t. Inr (text_response 200 ''{}'')) (PyStr WEBHOOK_URL)
      False GOOGLE_CHAT_ERROR_CODES =
     (Inr \<lparr>is_connected = True, error = None\<rparr>, GOOGLE_CHAT_ERROR_CODES) \<and>
   (\<exists>e t. test_connection mock_config (\<lambda>u p t. Inr (text_response 500 ''oops''))
             (PyStr WEBHOOK_URL) False GOOGLE_CHAT_ERROR_CODES =
            (Inr \<lparr>is_connected = False, error = Some e\<rparr>, t) \<and>
          test_connection mock_config (\<lambda>u p t. Inr (text_response 500 ''oops''))
             (PyStr WEBHOOK_URL) True GOOGLE_CHAT_ERROR_CODES = (Inl e, t) \<and>
          class_name e = ''GoogleChatSendMessageError'' \<and>
          message (error_info e) = ''Google Chat webhook returned 500: oops'')"
proof -
  have d: "\<exists>e t. test_connection mock_config (\<lambda>u p t. Inr (text_response 500 ''oops''))
             (PyStr WEBHOOK_URL) False GOOGLE_CHAT_ERROR_CODES =
            (Inr \<lparr>is_connected = False, error = Some e\<rparr>, t) \<and>
          test_connection mock_config (\<lambda>u p t. Inr (text_response 500 ''oops''))
             (PyStr WEBHOOK_URL) True GOOGLE_CHAT_ERROR_CODES = (Inl e, t) \<and>
          class_name e = ''GoogleChatSendMessageError'' \<and>
          message (error_info e) = ''Google Chat webhook returned 500: oops''"
  proof -
    have no: "\<not> (200 \<le> status_code (text_response 500 ''oops'') \<and>
               status_code (text_response 500 ''oops'') < 300)"
      by (simp add: text_response_def)
    have p: "(\<lambda>u p t. Inr (text_response 500 ''oops'')) WEBHOOK_URL (test_payload mock_config)
        (10::int) = (Inr (text_response 500 ''oops'') :: py_exception + response)"
      by simp
    from test_connection_dual_mode [where cfg = mock_config
        and post = "\<lambda>u p t. Inr (text_response 500 ''oops'')" and url = "PyStr WEBHOOK_URL"
        and table = GOOGLE_CHAT_ERROR_CODES]
    have "\<forall>u r. validate_webhook_url (PyStr WEBHOOK_URL) GOOGLE_CHAT_ERROR_CODES =
          (Inr u, GOOGLE_CHAT_ERROR_CODES) \<longrightarrow>
        (\<lambda>u p t. Inr (text_response 500 ''oops'')) u (test_payload mock_config) (10::int) =
          (Inr r :: py_exception + response) \<longrightarrow>
        \<not> (200 \<le> status_code r \<and> status_code r < 300) \<longrightarrow>
        (\<exists>e t. test_connection mock_config (\<lambda>u p t. Inr (text_response 500 ''oops''))
                 (PyStr WEBHOOK_URL) False GOOGLE_CHAT_ERROR_CODES =
                (Inr \<lparr>is_connected = False, error = Some e\<rparr>, t) \<and>
             test_connection mock_config (\<lambda>u p t. Inr (text_response 500 ''oops''))
                 (PyStr WEBHOOK_URL) True GOOGLE_CHAT_ERROR_CODES = (Inl e, t) \<and>
             class_name e = ''GoogleChatSendMessageError'' \<and>
             message (error_info e) =
               ''Google Chat webhook returned '' @ str_int (status_code r) @ '': '' @
                 response_text r)"
      by blast
    from this WEBHOOK_URL_valid [of GOOGLE_CHAT_ERROR_CODES] no p
    have "\<exists>e t. test_connection mock_config (\<lambda>u p t. Inr (text_response 500 ''oops''))
                 (PyStr WEBHOOK_URL) False GOOGLE_CHAT_ERROR_CODES =
                (Inr \<lparr>is_connected = False, error = Some e\<rparr>, t) \<and>
             test_connection mock_config (\<lambda>u p t. Inr (text_response 500 ''oops''))
                 (PyStr WEBHOOK_URL) True GOOGLE_CHAT_ERROR_CODES = (Inl e, t) \<and>
             class_name e = ''GoogleChatSendMessageError'' \<and>
             message (error_info e) =
               ''Google Chat webhook returned '' @ str_int (status_code (text_response 500 ''oops'')) @
                 '': '' @ response_text (text_response 500 ''oops'')"
      by blast
    then show ?thesis by (simp add: text_response_def str_int_500)
  qed
  have inv: "accepted_url (PyStr ''https://invalid'') = None" by simp
  have a: "\<exists>e t. test_connection mock_config (\<lambda>u p t. Inl RequestException) (PyStr ''https://invalid'')
             False GOOGLE_CHAT_ERROR_CODES =
            (Inr \<lparr>is_connected = False, error = Some e\<rparr>, t) \<and>
          test_connection mock_config (\<lambda>u p t. Inl RequestException) (PyStr ''https://invalid'')
             True GOOGLE_CHAT_ERROR_CODES = (Inl e, t) \<and>
          class_name e = ''GoogleChatInvalidWebhookError''"
    using test_connection_dual_mode [where cfg = mock_config
        and post = "\<lambda>u p t. Inl RequestException" and url = "PyStr ''https://invalid''"
        and table = GOOGLE_CHAT_ERROR_CODES] inv
    by blast
  have b: "\<exists>e t. test_connection mock_config (\<lambda>u p t. Inl RequestException) (PyStr WEBHOOK_URL)
             False GOOGLE_CHAT_ERROR_CODES =
            (Inr \<lparr>is_connected = False, error = Some e\<rparr>, t) \<and>
          test_connection mock_config (\<lambda>u p t. Inl RequestException) (PyStr WEBHOOK_URL)
             True GOOGLE_CHAT_ERROR_CODES = (Inl e, t) \<and>
          class_name e = ''GoogleChatClientError'' \<and>
          original_exception e = Some RequestException"
    using test_connection_dual_mode [where cfg = mock_config
        and post = "\<lambda>u p t. Inl RequestException" and url = "PyStr WEBHOOK_URL"
        and table = GOOGLE_CHAT_ERROR_CODES]
      WEBHOOK_URL_valid [of GOOGLE_CHAT_ERROR_CODES]
    by blast
  have c: "test_connection mock_config (\<lambda>u p t. Inr (text_response 200 ''{}'')) (PyStr WEBHOOK_URL)
      False GOOGLE_CHAT_ERROR_CODES =
     (Inr \<lparr>is_connected = True, error = None\<rparr>, GOOGLE_CHAT_ERROR_CODES)"
    using test_connection_dual_mode [where cfg = mock_config
        and post = "\<lambda>u p t. Inr (text_response 200 ''{}'')" and url = "PyStr WEBHOOK_URL"
        and table = GOOGLE_CHAT_ERROR_CODES and raise_on_exception = False]
      WEBHOOK_URL_valid [of GOOGLE_CHAT_ERROR_CODES]
    by (simp add: text_response_def)
  from a b c d show ?thesis by blast
qed

section \<open>The card\<close>

lemma init_card_header:
  "GoogleChat_init url prov space header table = (Inr self, table') \<Longrightarrow>
   card_header self = str_or header DEFAULT_CARD_HEADER \<and> space_name self = space \<and>
   provider self = prov"
  by (auto simp: GoogleChat_init_def split: prod.splits sum.splits)

lemma build_message_shape:
  "\<exists>statistics.
    build_statistics_section fs stats = Inr statistics \<and>
    build_message cfg env fs self identity logo stats args =
      Inr (PyDict [(''cardsV2'', PyList [
        PyDict [
          (''cardId'', PyStr ''prowler-summary''),
          (''card'', PyDict [
             (''header'', PyDict [
                (''title'', PyStr (card_header self)),
                (''subtitle'', PyStr (str_or (space_name self) (DEFAULT_SUBTITLE env))),
                (''imageUrl'', PyStr (square_logo_img cfg)),
                (''imageType'', PyStr ''SQUARE'')]),
             (''sections'', PyList [
                build_identity_section identity logo stats,
                statistics,
                build_parameters_section args])])]])])"
proof -
  obtain statistics where st: "build_statistics_section fs stats = Inr statistics"
    using build_statistics_section_total by blast
  then show ?thesis
    by (simp add: build_message_def get_prowler_avatar_def)
qed

lemma built_header:
  "built_header_field (build_message cfg env fs self identity logo stats args) ''title'' =
     Some (PyStr (card_header self))"
  "built_header_field (build_message cfg env fs self identity logo stats args) ''subtitle'' =
     Some (PyStr (str_or (space_name self) (DEFAULT_SUBTITLE env)))"
proof -
  from build_message_shape [of fs stats cfg env self identity logo args]
  obtain statistics where b: "build_message cfg env fs self identity logo stats args =
      Inr (PyDict [(''cardsV2'', PyList [
        PyDict [
          (''cardId'', PyStr ''prowler-summary''),
          (''card'', PyDict [
             (''header'', PyDict [
                (''title'', PyStr (card_header self)),
                (''subtitle'', PyStr (str_or (space_name self) (DEFAULT_SUBTITLE env))),
                (''imageUrl'', PyStr (square_logo_img cfg)),
                (''imageType'', PyStr ''SQUARE'')]),
             (''sections'', PyList [
                build_identity_section identity logo stats,
                statistics,
                build_parameters_section args])])]])])"
    by blast
  show "built_header_field (build_message cfg env fs self identity logo stats args) ''title'' =
     Some (PyStr (card_header self))"
    by (simp add: b built_header_field_def header_field_def card_of_def)
  show "built_header_field (build_message cfg env fs self identity logo stats args) ''subtitle'' =
     Some (PyStr (str_or (space_name self) (DEFAULT_SUBTITLE env)))"
    by (simp add: b built_header_field_def header_field_def card_of_def)
qed

lemma str_or_first_non_empty:
  "str_or a b = first_non_empty [a] b"
  "str_or x (str_or y (str_or z d)) = first_non_empty [x, y, z] d"
  by (auto simp: str_or_def split: option.splits)

text \<open>
  C8, as amended. The card has exactly three sections, in the order identity, statistics,
  parameters. Its title is the card-header override given to the constructor when that is
  present and not empty, and \<open>Prowler Scan Summary\<close> otherwise. Its subtitle is the
  space-name override when that is present and not empty, else the first of the
  environment variables \<open>AUTH_URL\<close>, \<open>PROWLER_URL\<close> that is set and not empty, else
  \<open>https://prowler.com\<close>.
\<close>

theorem build_message_card:
  assumes "GoogleChat_init url prov space header table = (Inr self, table')"
  shows "\<exists>statistics.
    build_statistics_section fs stats = Inr statistics \<and>
    build_message cfg env fs self identity logo stats args =
      Inr (PyDict [(''cardsV2'', PyList [
        PyDict [
          (''cardId'', PyStr ''prowler-summary''),
          (''card'', PyDict [
             (''header'', PyDict [
                (''title'', PyStr (first_non_empty [header] ''Prowler Scan Summary'')),
                (''subtitle'', PyStr
                   (first_non_empty [space, env ''AUTH_URL'', env ''PROWLER_URL'']
                      ''https://prowler.com'')),
                (''imageUrl'', PyStr (square_logo_img cfg)),
                (''imageType'', PyStr ''SQUARE'')]),
             (''sections'', PyList [
                build_identity_section identity logo stats,
                statistics,
                build_parameters_section args])])]])])"
proof -
  from init_card_header [OF assms]
  have h: "card_header self = first_non_empty [header] ''Prowler Scan Summary''"
    by (simp add: str_or_first_non_empty(1) DEFAULT_CARD_HEADER_def)
  from init_card_header [OF assms]
  have sp: "str_or (space_name self) (DEFAULT_SUBTITLE env) =
      first_non_empty [space, env ''AUTH_URL'', env ''PROWLER_URL''] ''https://prowler.com''"
    by (simp add: DEFAULT_SUBTITLE_def str_or_first_non_empty(2))
  from build_message_shape [of fs stats cfg env self identity logo args]
  show ?thesis by (simp only: h sp)
qed

theorem build_message_card_witness:
  "\<exists>statistics.
    build_statistics_section (\<lambda>x. []) build_stats = Inr statistics \<and>
    build_message mock_config [''AUTH_URL'' \<mapsto> ''https://prowler.internal''] (\<lambda>x. []) mock_chat
        ''Identity'' ''logo'' build_stats ARGS =
      Inr (PyDict [(''cardsV2'', PyList [
        PyDict [
          (''cardId'', PyStr ''prowler-summary''),
          (''card'', PyDict [
             (''header'', PyDict [
                (''title'', PyStr ''Prowler Scan Summary''),
                (''subtitle'', PyStr ''https://prowler.internal''),
                (''imageUrl'', PyStr ''prowler.png''),
                (''imageType'', PyStr ''SQUARE'')]),
             (''sections'', PyList [
                build_identity_section ''Identity'' ''logo'' build_stats,
                statistics,
                build_parameters_section ARGS])])]])])"
proof -
  have i: "GoogleChat_init (PyStr WEBHOOK_URL) mock_provider None None GOOGLE_CHAT_ERROR_CODES =
      (Inr mock_chat, GOOGLE_CHAT_ERROR_CODES)"
    by (simp add: GoogleChat_init_def WEBHOOK_URL_valid mock_chat_def str_or_def)
  from build_message_card [OF i, of "\<lambda>x. []" build_stats mock_config
      "[''AUTH_URL'' \<mapsto> ''https://prowler.internal'']" "''Identity''" "''logo''" ARGS]
  show ?thesis by (simp add: mock_config_def)
qed

text \<open>
  C8 as stated fails for an override that is supplied as the empty string, and for a first
  environment variable that is set to the empty string: the constructor called with the
  card header \<open>""\<close> builds the notifier with the default header, so the title is not the
  supplied override; and with \<open>AUTH_URL\<close> set to \<open>""\<close> the subtitle is the value of
  \<open>PROWLER_URL\<close>, not that of the first variable that is set.
\<close>

theorem build_message_card_counterexample:
  "GoogleChat_init (PyStr WEBHOOK_URL) mock_provider None (Some []) GOOGLE_CHAT_ERROR_CODES =
     (Inr mock_chat, GOOGLE_CHAT_ERROR_CODES) \<and>
   built_header_field
     (build_message mock_config [''AUTH_URL'' \<mapsto> [], ''PROWLER_URL'' \<mapsto> ''https://prowler.internal'']
        (\<lambda>x. []) mock_chat ''Identity'' ''logo'' build_stats ARGS) ''title'' =
     Some (PyStr ''Prowler Scan Summary'') \<and>
   Some (PyStr ''Prowler Scan Summary'') \<noteq> Some (PyStr []) \<and>
   built_header_field
     (build_message mock_config [''AUTH_URL'' \<mapsto> [], ''PROWLER_URL'' \<mapsto> ''https://prowler.internal'']
        (\<lambda>x. []) mock_chat ''Identity'' ''logo'' build_stats ARGS) ''subtitle'' =
     Some (PyStr ''https://prowler.internal'')"
  by (simp add: built_header GoogleChat_init_def WEBHOOK_URL_valid mock_chat_def str_or_def
      DEFAULT_SUBTITLE_def DEFAULT_CARD_HEADER_def)

section \<open>The identity section\<close>

lemma build_summary_title_present:
  "stats ''findings_count'' = Some n \<Longrightarrow>
   build_summary_title identity stats =
     summary_prefix @ identity @ '' with a total of *'' @ str_int n @ ''* findings.''"
  by (simp add: build_summary_title_def)

lemma build_summary_title_absent:
  "stats ''findings_count'' = None \<Longrightarrow> build_summary_title identity stats = []"
  by (simp add: build_summary_title_def)

lemma build_identity_section_shape:
  "build_identity_section identity logo stats =
     PyDict [(''widgets'', PyList [
       PyDict [(''decoratedText'', PyDict [
         (''text'', PyStr (''*Environment*\<newline>'' @
            (if identity = [] then ''Unknown provider'' else identity))),
         (''startIcon'', PyDict [
            (''altText'', PyStr ''Provider Logo''),
            (''imageUrl'', PyStr logo)])])],
       PyDict [(''textParagraph'', PyDict [
         (''text'', PyStr (build_summary_title
            (if identity = [] then ''your environment'' else identity) stats))])]])]"
  by (simp add: build_identity_section_def str_or_def)

lemma str_int_0: "str_int 0 = ''0''"
  by (simp add: str_int_def decimal.simps digit_char_def)

text \<open>
  C7. For statistics without \<open>findings_count\<close> the indexing
  \<open>stats['findings_count']\<close> of \<open>build_summary_title\<close> raises \<open>KeyError\<close>, the handler
  returns the empty string, and the summary line of the identity section is empty: it
  does not include the value of \<open>findings_count\<close>, whose default is 0 (the statistics
  section of the same payload renders it as \<open>Total findings analysed: 0\<close>).
\<close>

theorem identity_section_missing_findings_count:
  "stats_get Map.empty ''findings_count'' 0 = 0 \<and>
   build_identity_section [] ''logo'' Map.empty =
     PyDict [(''widgets'', PyList [
       PyDict [(''decoratedText'', PyDict [
         (''text'', PyStr ''*Environment*\<newline>Unknown provider''),
         (''startIcon'', PyDict [
            (''altText'', PyStr ''Provider Logo''),
            (''imageUrl'', PyStr ''logo'')])])],
       PyDict [(''textParagraph'', PyDict [(''text'', PyStr [])])]])] \<and>
   \<not> sublist (str_int (stats_get Map.empty ''findings_count'' 0)) []"
  by (simp add: build_identity_section_shape build_summary_title_absent stats_get_def str_int_0)

section \<open>The statistics section\<close>

subsection \<open>The calculator and the expression of the specification\<close>

lemma calculate_percentage_spec:
  "calculate_percentage c t =
     (if t = 0 then Inr (Fin False 0)
      else (case spec_percentage c t of Inr v \<Rightarrow> Inr v | Inl e \<Rightarrow> Inr (Fin False 0)))"
  by (simp add: calculate_percentage_def spec_percentage_def)

lemma spec_percentage_zero: "spec_percentage c 0 = Inl ZeroDivisionError"
  by (simp add: spec_percentage_def int_truediv_def)

lemma spec_12_22: "spec_percentage 12 22 = Inr (float_literal 5455 2)"
  by code_simp

lemma spec_10_22: "spec_percentage 10 22 = Inr (float_literal 4545 2)"
  by code_simp

lemma percentage_12_22: "calculate_percentage 12 22 = Inr (float_literal 5455 2)"
  using spec_12_22 by (simp add: calculate_percentage_spec)

lemma percentage_10_22: "calculate_percentage 10 22 = Inr (float_literal 4545 2)"
  using spec_10_22 by (simp add: calculate_percentage_spec)

lemma literal_5455: "float_literal 5455 2 = Fin False (3838614994891571 / 70368744177664)"
  by code_simp

lemma literal_4545: "float_literal 4545 2 = Fin False (3198259422874829 / 70368744177664)"
  by code_simp

subsection \<open>The binade of a rational, and overflow\<close>

lemma pow2_powi: "pow2 e = 2 powi e"
proof (cases "0 \<le> e")
  case True
  then show ?thesis by (simp add: pow2_def power_int_def)
next
  case False
  then show ?thesis by (simp add: pow2_def power_int_def power_one_over inverse_eq_divide)
qed

lemma bitlen_bounds:
  "0 < n \<Longrightarrow> \<exists>k. bitlen n = int k + 1 \<and> 2 ^ k \<le> n \<and> n < 2 ^ (k + 1)"
proof (induction n rule: bitlen.induct)
  case (1 n)
  show ?case
  proof (cases "n = 1")
    case True
    have "bitlen 1 = 1" by (simp add: bitlen.simps)
    with True show ?thesis by (intro exI [of _ 0]) simp
  next
    case False
    with "1.prems" have pos: "0 < n div 2" and nle: "\<not> n \<le> 0" by auto
    from "1.IH" [OF nle pos] obtain k where k: "bitlen (n div 2) = int k + 1"
      "2 ^ k \<le> n div 2" "n div 2 < 2 ^ (k + 1)" by blast
    have b: "bitlen n = int (Suc k) + 1"
      using nle k(1) by (subst bitlen.simps) simp
    have lo: "(2::int) ^ Suc k \<le> n" using k(2) by simp
    have hi: "n < (2::int) ^ (Suc k + 1)" using k(3) by simp
    from b lo hi show ?thesis by blast
  qed
qed

lemma ilog2_bounds:
  assumes "0 < r"
  shows "pow2 (ilog2 r) \<le> r \<and> r < pow2 (ilog2 r + 1)"
proof -
  obtain p q where pq: "quotient_of r = (p, q)" by fastforce
  then have q: "0 < q" and r: "r = of_int p / of_int q"
    by (simp_all add: quotient_of_denom_pos quotient_of_div)
  from assms r q have p: "0 < p" by (simp add: zero_less_divide_iff)
  from bitlen_bounds [OF p] obtain kp where kp: "bitlen p = int kp + 1"
    "2 ^ kp \<le> p" "p < 2 ^ (kp + 1)" by blast
  from bitlen_bounds [OF q] obtain kq where kq: "bitlen q = int kq + 1"
    "2 ^ kq \<le> q" "q < 2 ^ (kq + 1)" by blast
  let ?d = "int kp - int kq"
  have d: "bitlen p - bitlen q = ?d" using kp(1) kq(1) by simp
  have P: "(2::rat) ^ kp \<le> of_int p" "(of_int p :: rat) < 2 ^ (kp + 1)"
    using kp(2,3) by (metis of_int_le_iff of_int_numeral of_int_power, metis of_int_less_iff of_int_numeral of_int_power)
  have Q: "(2::rat) ^ kq \<le> of_int q" "(of_int q :: rat) < 2 ^ (kq + 1)"
    using kq(2,3) by (metis of_int_le_iff of_int_numeral of_int_power, metis of_int_less_iff of_int_numeral of_int_power)
  have qpos: "(0::rat) < of_int q" using q by simp
  have lower: "pow2 (?d - 1) \<le> r"
  proof -
    have e: "?d - 1 = int kp - int (kq + 1)" by simp
    have "pow2 (?d - 1) = 2 powi (int kp - int (kq + 1))"
      by (simp only: pow2_powi e)
    also have "\<dots> = 2 powi int kp / 2 powi int (kq + 1)"
      by (rule power_int_diff) simp
    also have "\<dots> = 2 ^ kp / 2 ^ (kq + 1)"
      by (simp only: power_int_of_nat)
    finally have "pow2 (?d - 1) = 2 ^ kp / 2 ^ (kq + 1)" .
    also have "\<dots> \<le> of_int p / 2 ^ (kq + 1)"
      using P(1) by (simp add: divide_right_mono)
    also have "\<dots> \<le> of_int p / of_int q"
      using Q(2) qpos p by (intro divide_left_mono) (simp_all add: less_imp_le)
    finally show ?thesis using r by simp
  qed
  have upper: "r < pow2 (?d + 1)"
  proof -
    have "r = of_int p / of_int q" by (rule r)
    also have "\<dots> < 2 ^ (kp + 1) / of_int q"
      using P(2) qpos by (simp add: divide_strict_right_mono)
    also have "\<dots> \<le> 2 ^ (kp + 1) / 2 ^ kq"
      using Q(1) qpos by (intro divide_left_mono) simp_all
    also have "\<dots> = pow2 (?d + 1)"
    proof -
      have e: "?d + 1 = int (kp + 1) - int kq" by simp
      have "pow2 (?d + 1) = 2 powi (int (kp + 1) - int kq)"
        by (simp only: pow2_powi e)
      also have "\<dots> = 2 powi int (kp + 1) / 2 powi int kq"
        by (rule power_int_diff) simp
      also have "\<dots> = 2 ^ (kp + 1) / 2 ^ kq"
        by (simp only: power_int_of_nat)
      finally show ?thesis by simp
    qed
    finally show ?thesis .
  qed
  show ?thesis
  proof (cases "pow2 ?d \<le> r")
    case True
    then have "ilog2 r = ?d" by (simp add: ilog2_def pq d Let_def)
    with True upper show ?thesis by simp
  next
    case False
    then have "ilog2 r = ?d - 1" by (simp add: ilog2_def pq d Let_def)
    with False lower show ?thesis by simp
  qed
qed

lemma ilog2_large:
  assumes "2 ^ 1024 \<le> r"
  shows "1024 \<le> ilog2 r"
proof (rule ccontr)
  assume "\<not> 1024 \<le> ilog2 r"
  then have "ilog2 r + 1 \<le> 1024" by simp
  then have "(2::rat) powi (ilog2 r + 1) \<le> 2 powi 1024"
    by (intro power_int_increasing) simp_all
  moreover have "0 < r" using assms by (rule less_le_trans [rotated]) simp
  then have "r < pow2 (ilog2 r + 1)" using ilog2_bounds by blast
  ultimately have "r < 2 powi 1024" by (simp add: pow2_powi)
  with assms show False by simp
qed

lemma binary64_overflow: "2 ^ 1024 \<le> r \<Longrightarrow> binary64 r = None"
proof -
  assume a: "2 ^ 1024 \<le> r"
  then have "0 < r" by (rule less_le_trans [rotated]) simp
  with ilog2_large [OF a] show ?thesis by (simp add: binary64_def)
qed

lemma int_truediv_overflow:
  assumes "b \<noteq> 0" and "2 ^ 1024 * \<bar>b\<bar> \<le> \<bar>a\<bar>"
  shows "int_truediv a b = Inl OverflowError"
proof -
  have bpos: "(0::rat) < of_int \<bar>b\<bar>" using assms(1) by simp
  have "(2::rat) ^ 1024 * of_int \<bar>b\<bar> \<le> of_int \<bar>a\<bar>"
    using assms(2) by (metis of_int_le_iff of_int_mult of_int_numeral of_int_power)
  then have "(2::rat) ^ 1024 \<le> of_int \<bar>a\<bar> / of_int \<bar>b\<bar>"
    using bpos by (simp add: le_divide_eq)
  from binary64_overflow [OF this] assms(1) show ?thesis
    by (simp add: int_truediv_def round_result_def)
qed

lemma calculate_percentage_overflow:
  assumes "t \<noteq> 0" and "2 ^ 1024 * \<bar>t\<bar> \<le> \<bar>c\<bar>"
  shows "spec_percentage c t = Inl OverflowError"
    and "calculate_percentage c t = Inr (Fin False 0)"
  using int_truediv_overflow [OF assms] assms(1)
  by (simp_all add: spec_percentage_def calculate_percentage_def)

lemma overflow_example:
  "spec_percentage (2 ^ 1024) 1 = Inl OverflowError"
  "calculate_percentage (2 ^ 1024) 1 = Inr (Fin False 0)"
  by (rule calculate_percentage_overflow; simp)+


text \<open>
  C1, as amended. The statistics section is always built (no arithmetic error leaves the
  calculator). Its pass and fail percentages are the values of
  \<open>round(count / findings_count * 100, 2)\<close> whenever that expression has a value, and
  \<open>0.0\<close> whenever it raises (a division by zero, or a quotient beyond the range of a
  float) and whenever \<open>findings_count\<close> is 0 or absent. For 12 passed and 10 failed
  findings out of 22 they are the floats \<open>54.55\<close> and \<open>45.45\<close>.
\<close>

theorem statistics_percentages:
  "(\<exists>pass_percentage fail_percentage.
     calculate_percentage (stats_get stats ''total_pass'' 0)
        (stats_get stats ''findings_count'' 0) = Inr pass_percentage \<and>
     calculate_percentage (stats_get stats ''total_fail'' 0)
        (stats_get stats ''findings_count'' 0) = Inr fail_percentage \<and>
     build_statistics_section float_str stats =
       Inr (PyDict [(''widgets'', PyList [
         PyDict [(''decoratedText'', PyDict [
           (''text'', PyStr (check_mark @ '' *'' @ str_int (stats_get stats ''total_pass'' 0) @
              '' Passed findings* ('' @ float_str pass_percentage @ ''%)'')),
           (''bottomText'', PyStr (severity_line stats ''pass''))])],
         PyDict [(''decoratedText'', PyDict [
           (''text'', PyStr (cross_mark @ '' *'' @ str_int (stats_get stats ''total_fail'' 0) @
              '' Failed findings* ('' @ float_str fail_percentage @ ''%)'')),
           (''bottomText'', PyStr (severity_line stats ''fail''))])],
         PyDict [(''decoratedText'', PyDict [
           (''text'', PyStr (bar_chart @ '' *'' @
              str_int (stats_get stats ''resources_count'' 0) @ '' Scanned Resources*'')),
           (''bottomText'', PyStr (''Total findings analysed: '' @
              str_int (stats_get stats ''findings_count'' 0)))])]])]) \<and>
     (\<forall>v. spec_percentage (stats_get stats ''total_pass'' 0)
            (stats_get stats ''findings_count'' 0) = Inr v \<longrightarrow> pass_percentage = v) \<and>
     (\<forall>v. spec_percentage (stats_get stats ''total_fail'' 0)
            (stats_get stats ''findings_count'' 0) = Inr v \<longrightarrow> fail_percentage = v) \<and>
     (\<forall>e. spec_percentage (stats_get stats ''total_pass'' 0)
            (stats_get stats ''findings_count'' 0) = Inl e \<longrightarrow>
          pass_percentage = Fin False 0) \<and>
     (\<forall>e. spec_percentage (stats_get stats ''total_fail'' 0)
            (stats_get stats ''findings_count'' 0) = Inl e \<longrightarrow>
          fail_percentage = Fin False 0) \<and>
     (stats ''findings_count'' = None \<or> stats ''findings_count'' = Some 0 \<longrightarrow>
        pass_percentage = Fin False 0 \<and> fail_percentage = Fin False 0)) \<and>
   calculate_percentage 12 22 = Inr (float_literal 5455 2) \<and>
   calculate_percentage 10 22 = Inr (float_literal 4545 2)"
proof -
  let ?fc = "stats_get stats ''findings_count'' 0"
  let ?tp = "stats_get stats ''total_pass'' 0"
  let ?tf = "stats_get stats ''total_fail'' 0"
  obtain p where p: "calculate_percentage ?tp ?fc = Inr p"
    using calculate_percentage_total by blast
  obtain f where f: "calculate_percentage ?tf ?fc = Inr f"
    using calculate_percentage_total by blast
  have sect: "build_statistics_section float_str stats =
       Inr (PyDict [(''widgets'', PyList [
         PyDict [(''decoratedText'', PyDict [
           (''text'', PyStr (check_mark @ '' *'' @ str_int ?tp @
              '' Passed findings* ('' @ float_str p @ ''%)'')),
           (''bottomText'', PyStr (severity_line stats ''pass''))])],
         PyDict [(''decoratedText'', PyDict [
           (''text'', PyStr (cross_mark @ '' *'' @ str_int ?tf @
              '' Failed findings* ('' @ float_str f @ ''%)'')),
           (''bottomText'', PyStr (severity_line stats ''fail''))])],
         PyDict [(''decoratedText'', PyDict [
           (''text'', PyStr (bar_chart @ '' *'' @
              str_int (stats_get stats ''resources_count'' 0) @ '' Scanned Resources*'')),
           (''bottomText'', PyStr (''Total findings analysed: '' @ str_int ?fc))])]])])"
    by (simp add: build_statistics_section_def p f)
  have pv: "p = v" if "spec_percentage ?tp ?fc = Inr v" for v
    using that p spec_percentage_zero [of ?tp]
    by (cases "?fc = 0") (simp_all add: calculate_percentage_spec)
  have fv: "f = v" if "spec_percentage ?tf ?fc = Inr v" for v
    using that f spec_percentage_zero [of ?tf]
    by (cases "?fc = 0") (simp_all add: calculate_percentage_spec)
  have pe: "p = Fin False 0" if "spec_percentage ?tp ?fc = Inl e" for e
    using that p by (cases "?fc = 0") (simp_all add: calculate_percentage_spec)
  have fe: "f = Fin False 0" if "spec_percentage ?tf ?fc = Inl e" for e
    using that f by (cases "?fc = 0") (simp_all add: calculate_percentage_spec)
  have zero: "p = Fin False 0 \<and> f = Fin False 0"
    if "stats ''findings_count'' = None \<or> stats ''findings_count'' = Some 0"
  proof -
    from that have "?fc = 0" by (auto simp: stats_get_def)
    with p f show ?thesis by (simp add: calculate_percentage_spec)
  qed
  from p f sect pv fv pe fe zero percentage_12_22 percentage_10_22
  show ?thesis by blast
qed

theorem statistics_percentages_witness:
  "\<forall>float_str.
     build_statistics_section float_str build_stats =
       Inr (PyDict [(''widgets'', PyList [
         PyDict [(''decoratedText'', PyDict [
           (''text'', PyStr (check_mark @ '' *12 Passed findings* ('' @
              float_str (float_literal 5455 2) @ ''%)'')),
           (''bottomText'', PyStr (severity_line build_stats ''pass''))])],
         PyDict [(''decoratedText'', PyDict [
           (''text'', PyStr (cross_mark @ '' *10 Failed findings* ('' @
              float_str (float_literal 4545 2) @ ''%)'')),
           (''bottomText'', PyStr (severity_line build_stats ''fail''))])],
         PyDict [(''decoratedText'', PyDict [
           (''text'', PyStr (bar_chart @ '' *20 Scanned Resources*'')),
           (''bottomText'', PyStr ''Total findings analysed: 22'')])]])]) \<and>
     calculate_percentage (stats_get Map.empty ''total_pass'' 0)
        (stats_get Map.empty ''findings_count'' 0) = Inr (Fin False 0) \<and>
     calculate_percentage (stats_get [''total_pass'' \<mapsto> 7, ''findings_count'' \<mapsto> 0] ''total_pass'' 0)
        (stats_get [''total_pass'' \<mapsto> 7, ''findings_count'' \<mapsto> 0] ''findings_count'' 0) =
       Inr (Fin False 0) \<and>
     float_literal 5455 2 = Fin False (3838614994891571 / 70368744177664) \<and>
     float_literal 4545 2 = Fin False (3198259422874829 / 70368744177664)"
proof (intro allI conjI)
  show "float_literal 5455 2 = Fin False (3838614994891571 / 70368744177664)"
    by (rule literal_5455)
  show "float_literal 4545 2 = Fin False (3198259422874829 / 70368744177664)"
    by (rule literal_4545)
next
  fix float_str :: "pyfloat \<Rightarrow> string"
  have g: "stats_get build_stats ''total_pass'' 0 = 12"
    "stats_get build_stats ''total_fail'' 0 = 10"
    "stats_get build_stats ''findings_count'' 0 = 22"
    "stats_get build_stats ''resources_count'' 0 = 20"
    by (simp_all add: stats_get_def build_stats_def)
  have s: "str_int 12 = ''12''" "str_int 10 = ''10''" "str_int 22 = ''22''" "str_int 20 = ''20''"
    by (simp_all add: str_int_def decimal.simps digit_char_def)
  from statistics_percentages [of build_stats float_str]
  obtain p f where pf:
    "build_statistics_section float_str build_stats =
       Inr (PyDict [(''widgets'', PyList [
         PyDict [(''decoratedText'', PyDict [
           (''text'', PyStr (check_mark @ '' *'' @ str_int (stats_get build_stats ''total_pass'' 0) @
              '' Passed findings* ('' @ float_str p @ ''%)'')),
           (''bottomText'', PyStr (severity_line build_stats ''pass''))])],
         PyDict [(''decoratedText'', PyDict [
           (''text'', PyStr (cross_mark @ '' *'' @ str_int (stats_get build_stats ''total_fail'' 0) @
              '' Failed findings* ('' @ float_str f @ ''%)'')),
           (''bottomText'', PyStr (severity_line build_stats ''fail''))])],
         PyDict [(''decoratedText'', PyDict [
           (''text'', PyStr (bar_chart @ '' *'' @
              str_int (stats_get build_stats ''resources_count'' 0) @ '' Scanned Resources*'')),
           (''bottomText'', PyStr (''Total findings analysed: '' @
              str_int (stats_get build_stats ''findings_count'' 0)))])]])])"
    "\<forall>v. spec_percentage (stats_get build_stats ''total_pass'' 0)
            (stats_get build_stats ''findings_count'' 0) = Inr v \<longrightarrow> p = v"
    "\<forall>v. spec_percentage (stats_get build_stats ''total_fail'' 0)
            (stats_get build_stats ''findings_count'' 0) = Inr v \<longrightarrow> f = v"
    by blast
  from pf(2) spec_12_22 have p: "p = float_literal 5455 2" by (simp add: g)
  from pf(3) spec_10_22 have f: "f = float_literal 4545 2" by (simp add: g)
  from pf(1) show "build_statistics_section float_str build_stats =
       Inr (PyDict [(''widgets'', PyList [
         PyDict [(''decoratedText'', PyDict [
           (''text'', PyStr (check_mark @ '' *12 Passed findings* ('' @
              float_str (float_literal 5455 2) @ ''%)'')),
           (''bottomText'', PyStr (severity_line build_stats ''pass''))])],
         PyDict [(''decoratedText'', PyDict [
           (''text'', PyStr (cross_mark @ '' *10 Failed findings* ('' @
              float_str (float_literal 4545 2) @ ''%)'')),
           (''bottomText'', PyStr (severity_line build_stats ''fail''))])],
         PyDict [(''decoratedText'', PyDict [
           (''text'', PyStr (bar_chart @ '' *20 Scanned Resources*'')),
           (''bottomText'', PyStr ''Total findings analysed: 22'')])]])])"
    by (simp add: g s p f)
next
  from statistics_percentages [of Map.empty "\<lambda>x. []"]
  show "calculate_percentage (stats_get Map.empty ''total_pass'' 0)
        (stats_get Map.empty ''findings_count'' 0) = Inr (Fin False 0)"
    by auto
next
  let ?s = "[''total_pass'' \<mapsto> 7, ''findings_count'' \<mapsto> (0::int)]"
  have "?s ''findings_count'' = Some 0" by simp
  with statistics_percentages [of ?s "\<lambda>x. []"]
  show "calculate_percentage (stats_get ?s ''total_pass'' 0) (stats_get ?s ''findings_count'' 0) =
       Inr (Fin False 0)"
    by auto
qed

text \<open>
  C1 as stated fails where the expression has no value although \<open>findings_count\<close> is
  not 0: for \<open>total_pass = 2 ** 1024\<close> and \<open>findings_count = 1\<close> the division raises
  \<open>OverflowError\<close>, and the percentage is \<open>0.0\<close>.
\<close>

theorem statistics_percentages_counterexample:
  "stats_get [''total_pass'' \<mapsto> 2 ^ 1024, ''findings_count'' \<mapsto> 1] ''total_pass'' 0 = 2 ^ 1024 \<and>
   stats_get [''total_pass'' \<mapsto> 2 ^ 1024, ''findings_count'' \<mapsto> 1] ''findings_count'' 0 = 1 \<and>
   spec_percentage (2 ^ 1024) 1 = Inl OverflowError \<and>
   calculate_percentage (2 ^ 1024) 1 = Inr (Fin False 0)"
proof (intro conjI)
  show "stats_get [''total_pass'' \<mapsto> 2 ^ 1024, ''findings_count'' \<mapsto> 1] ''total_pass'' 0 =
      2 ^ 1024"
    by (simp add: stats_get_def)
  show "stats_get [''total_pass'' \<mapsto> 2 ^ 1024, ''findings_count'' \<mapsto> 1] ''findings_count'' 0 =
      1"
    by (simp add: stats_get_def)
  show "spec_percentage (2 ^ 1024) 1 = Inl OverflowError"
    by (rule overflow_example(1))
  show "calculate_percentage (2 ^ 1024) 1 = Inr (Fin False 0)"
    by (rule overflow_example(2))
qed

end
